theory Spec2Isabelle
  imports Main "HOL-Library.Word"
begin

section \<open>JavaScript strings\<close>

text \<open>
  A JavaScript string is a sequence of UTF-16 code units; \<open>length\<close>, \<open>substring\<close>,
  \<open>startsWith\<close> and the regular expressions of \<open>index.tsx\<close> (none has the \<open>u\<close> flag) all
  count and match code units. String literals of the source are ASCII and are written
  \<open>js ''...''\<close>.
\<close>

type_synonym jschar = "16 word"
type_synonym jsstring = "jschar list"

definition js :: "string \<Rightarrow> jsstring" where
  "js cs = map of_char cs"

text \<open>
  The code units removed by \<open>String.prototype.trim\<close> (WhiteSpace and LineTerminator of
  ECMAScript), which are also the ones matched by \<open>\s\<close>: TAB, LF, VT, FF, CR, SP, NBSP,
  U+1680, U+2000..U+200A, U+2028, U+2029, U+202F, U+205F, U+3000, U+FEFF.
\<close>

definition is_space :: "jschar \<Rightarrow> bool" where
  "is_space c \<longleftrightarrow>
     c \<in> {9, 10, 11, 12, 13, 32, 160, 5760, 8232, 8233, 8239, 8287, 12288, 65279}
     \<or> (8192 \<le> c \<and> c \<le> 8202)"

text \<open>\<open>\d\<close>: the ASCII digits.\<close>

definition is_digit :: "jschar \<Rightarrow> bool" where
  "is_digit c \<longleftrightarrow> 48 \<le> c \<and> c \<le> 57"

definition trim :: "jsstring \<Rightarrow> jsstring" where
  "trim s = rev (dropWhile is_space (rev (dropWhile is_space s)))"

text \<open>\<open>s.startsWith(p)\<close>.\<close>

definition startsWith :: "jsstring \<Rightarrow> jsstring \<Rightarrow> bool" where
  "startsWith s p \<longleftrightarrow> take (length p) s = p"

text \<open>
  \<open>s.split(sep)\<close> for a separator of one code unit: the pieces between the separators,
  always at least one piece (\<open>''''.split(sep)\<close> is \<open>['''']\<close>).
\<close>

fun split :: "jschar \<Rightarrow> jsstring \<Rightarrow> jsstring list" where
  "split sep [] = [[]]"
| "split sep (c # cs) =
     (if c = sep then [] # split sep cs
      else (case split sep cs of
              [] \<Rightarrow> [[c]]
            | piece # pieces \<Rightarrow> (c # piece) # pieces))"

definition newline :: jschar where
  "newline = 10"

definition hash :: jschar where
  "hash = of_char CHR ''#''"

section \<open>Title derivation (getPolishedNote, lines 529--560)\<close>

text \<open>
  \<open>line.replace(/^#+\s+/, '''')\<close>: the match is the whole leading run of \<open>#\<close> followed by
  the whole run of white space after it, and exists only if both runs are non-empty
  (no shorter run of \<open>#\<close> can be followed by white space, the next unit being \<open>#\<close>).
  Without a match the line is returned as it is.
\<close>

definition replace_heading_marker :: "jsstring \<Rightarrow> jsstring" where
  "replace_heading_marker line =
     (let hashes = takeWhile (\<lambda>c. c = hash) line;
          rest = dropWhile (\<lambda>c. c = hash) line
      in if hashes \<noteq> [] \<and> takeWhile is_space rest \<noteq> []
         then dropWhile is_space rest else line)"

text \<open>
  The class \<open>[\*_\`#\->\s\[\]\(.\d)]\<close> of the second regular expression: the eleven
  listed punctuation units, white space and digits.
\<close>

definition is_title_markup :: "jschar \<Rightarrow> bool" where
  "is_title_markup c \<longleftrightarrow> c \<in> set (js ''*_`#->[](.)'') \<or> is_space c \<or> is_digit c"

text \<open>\<open>line.replace(/^[\*_\`#\->\s\[\]\(.\d)]+/, '''')\<close>.\<close>

definition replace_leading_markup :: "jsstring \<Rightarrow> jsstring" where
  "replace_leading_markup line = dropWhile is_title_markup line"

text \<open>
  The first loop (lines 531--541): the value written to the editor title, or \<open>None\<close>
  when the loop ends with \<open>noteTitleSet\<close> still false. The editor title element exists
  (it is typed \<open>HTMLDivElement\<close>), so \<open>this.editorTitle && title\<close> is the truthiness of
  \<open>title\<close>.
\<close>

fun heading_loop :: "jsstring list \<Rightarrow> jsstring option" where
  "heading_loop [] = None"
| "heading_loop (line # lines) =
     (if startsWith line [hash] then
        (let title = trim (replace_heading_marker line)
         in if title \<noteq> [] then Some title else heading_loop lines)
      else heading_loop lines)"

definition maxLength :: nat where
  "maxLength = 60"

text \<open>The second loop (lines 543--559).\<close>

fun fallback_loop :: "jsstring list \<Rightarrow> jsstring option" where
  "fallback_loop [] = None"
| "fallback_loop (line # lines) =
     (if length line > 0 then
        (let potentialTitle = trim (replace_leading_markup line)
         in if length potentialTitle > 3
            then Some (take maxLength potentialTitle
                       @ (if length potentialTitle > maxLength then js ''...'' else []))
            else fallback_loop lines)
      else fallback_loop lines)"

definition title_lines :: "jsstring \<Rightarrow> jsstring list" where
  "title_lines polishedText = map trim (split newline polishedText)"

text \<open>
  Both loops: the new text of the editor title, or \<open>None\<close> when neither loop writes it.
\<close>

definition derive_title :: "jsstring \<Rightarrow> jsstring option" where
  "derive_title polishedText =
     (let lines = title_lines polishedText
      in case heading_loop lines of
           Some title \<Rightarrow> Some title
         | None \<Rightarrow> fallback_loop lines)"

text \<open>The text of the editor title after the two loops, from its text before them.\<close>

definition derived_editorTitle :: "jsstring \<Rightarrow> jsstring \<Rightarrow> jsstring" where
  "derived_editorTitle polishedText before =
     (case derive_title polishedText of None \<Rightarrow> before | Some t \<Rightarrow> t)"

section \<open>Data model\<close>

text \<open>The interface \<open>Note\<close> (lines 12--18); the field \<open>id\<close> is \<open>note_id\<close> here.\<close>

record Note =
  note_id :: jsstring
  title :: jsstring
  rawTranscription :: jsstring
  polishedNote :: jsstring
  timestamp :: nat

text \<open>A \<open>Blob\<close> as far as the code reads it: its size in bytes and its content type.\<close>

record Blob =
  blob_size :: nat
  blob_type :: jsstring

record File =
  file_name :: jsstring
  file_size :: nat
  file_type :: jsstring

definition blob_of_file :: "File \<Rightarrow> Blob" where
  "blob_of_file f = \<lparr>blob_size = file_size f, blob_type = file_type f\<rparr>"

text \<open>
  The content of \<open>polishedNote.innerHTML\<close>: either the output of \<open>marked.parse\<close> on a
  markdown text (kept as that text; the converter is an external library and its output
  is never read back by the class), or markup written as it is.
\<close>

datatype html = Marked jsstring | Markup jsstring

text \<open>The \<open>MediaRecorder\<close> held by the application: the stream it records, its \<open>mimeType\<close>.\<close>

record MediaRecorder =
  recorder_stream :: nat
  mimeType :: jsstring

text \<open>One content part of a request to \<open>genAI.models.generateContent\<close>.\<close>

datatype part = Text jsstring | InlineData jsstring jsstring

text \<open>What happened to the tracks of the media streams, oldest event first.\<close>

datatype media_event = Acquired nat | Stopped nat

text \<open>
  The fields of \<open>VoiceNotesApp\<close> that the modelled methods read or write, and the
  environment they act on.

  \<^item> Notes are objects: \<open>notes_arr\<close> (the field \<open>notes\<close>) and \<open>currentNote\<close> hold
    references (addresses) into \<open>heap\<close>, so that a note reached through both is
    one object, as in the source (\<open>displayNoteById\<close> makes \<open>currentNote\<close> an
    element of \<open>notes\<close>). \<open>nextRef\<close> is the next unused address.
  \<^item> The elements \<open>recordingStatus\<close>, \<open>rawTranscription\<close>, \<open>polishedNote\<close> and
    \<open>editorTitle\<close> are their \<open>textContent\<close> (\<open>innerHTML\<close> for \<open>polishedNote\<close>); the
    \<open>placeholder\<close> attributes come from the page, which is not part of the source, and
    are fields that no method writes. \<open>audioUpload_value\<close> is the \<open>value\<close> of the file
    input.
  \<^item> \<open>stream\<close> is the identity of the \<open>MediaStream\<close>; \<open>media_log\<close> records every
    \<open>getUserMedia\<close> that resolved and every \<open>track.stop()\<close> sweep over a stream, and
    \<open>nextStream\<close> is the identity the next resolved \<open>getUserMedia\<close> returns.
  \<^item> \<open>audioContext\<close> is true when the field holds an \<open>AudioContext\<close>. The canvas, the
    timer, the sidebar list and the theme are view state that none of the modelled
    methods reads, and are left out.
  \<^item> \<open>requests\<close> lists the calls of \<open>genAI.models.generateContent\<close>, oldest first.
  \<^item> \<open>voiceNotes\<close> is the value under the key \<open>voiceNotes\<close> of \<open>localStorage\<close>:
    the notes that \<open>JSON.stringify\<close> wrote, or \<open>None\<close> when the key is absent.
\<close>

text \<open>
  Calls of the platform that the source does not guard are taken to return:
  \<open>marked.parse\<close>, \<open>new AudioContext\<close> and the drawing calls of the live display,
  \<open>localStorage.setItem\<close>, \<open>JSON.parse\<close> on what \<open>JSON.stringify\<close> wrote, and
  \<open>mediaRecorder.stop()\<close> (which throws only on a recorder that is not recording).
  What the source awaits or retries can fail in the model: \<open>audioContext.close()\<close>,
  both \<open>getUserMedia\<close> calls, both constructor calls of \<open>MediaRecorder\<close>,
  \<open>mediaRecorder.start()\<close>, the file reader and both calls of \<open>generateContent\<close>.
\<close>

record App =
  heap :: "nat \<Rightarrow> Note"
  nextRef :: nat
  notes_arr :: "nat list"
  currentNote :: "nat option"
  recordingStatus :: jsstring
  rawTranscription_text :: jsstring
  polishedNote_html :: html
  editorTitle :: jsstring
  editorTitle_placeholder :: "jsstring option"
  rawTranscription_placeholder :: "jsstring option"
  polishedNote_placeholder :: "jsstring option"
  audioUpload_value :: jsstring
  mediaRecorder :: "MediaRecorder option"
  audioChunks :: "Blob list"
  isRecording :: bool
  stream :: "nat option"
  audioContext :: bool
  nextStream :: nat
  media_log :: "media_event list"
  requests :: "part list list"
  voiceNotes :: "Note list option"

text \<open>\<open>x || d\<close> for a string \<open>x\<close> that may be \<open>null\<close>: \<open>x\<close> when it is a non-empty string.\<close>

definition or_else :: "jsstring option \<Rightarrow> jsstring \<Rightarrow> jsstring" where
  "or_else x d = (case x of None \<Rightarrow> d | Some v \<Rightarrow> if v \<noteq> [] then v else d)"

text \<open>The decimal digits of a number, as a template literal prints it.\<close>

fun decimal :: "nat \<Rightarrow> jsstring" where
  "decimal n =
     (if n < 10 then [of_nat (48 + n)]
      else decimal (n div 10) @ [of_nat (48 + n mod 10)])"

declare decimal.simps [simp del]

section \<open>Note store\<close>

text \<open>\<open>Array.prototype.findIndex\<close>: the first index whose element passes, or \<open>-1\<close>.\<close>

fun findIndex :: "('a \<Rightarrow> bool) \<Rightarrow> 'a list \<Rightarrow> int" where
  "findIndex P [] = - 1"
| "findIndex P (x # xs) =
     (if P x then 0
      else (let i = findIndex P xs in if i > - 1 then i + 1 else - 1))"

definition saveNotesToLocalStorage :: "App \<Rightarrow> App" where
  "saveNotesToLocalStorage s = s\<lparr>voiceNotes := Some (map (heap s) (notes_arr s))\<rparr>"

text \<open>
  \<open>loadNotesFromLocalStorage\<close>: \<open>JSON.parse\<close> builds new objects, one per stored note.
\<close>

definition loadNotesFromLocalStorage :: "App \<Rightarrow> App" where
  "loadNotesFromLocalStorage s =
     (case voiceNotes s of
        None \<Rightarrow> s
      | Some saved \<Rightarrow>
          s\<lparr>heap := (\<lambda>r. if nextRef s \<le> r \<and> r < nextRef s + length saved
                          then saved ! (r - nextRef s) else heap s r),
            nextRef := nextRef s + length saved,
            notes_arr := [nextRef s ..< nextRef s + length saved]\<rparr>)"

text \<open>\<open>stopLiveDisplay\<close> (lines 341--365), on the modelled fields.\<close>

definition stopLiveDisplay :: "App \<Rightarrow> App" where
  "stopLiveDisplay s = s\<lparr>audioContext := False\<rparr>"

definition displayNote :: "nat \<Rightarrow> App \<Rightarrow> App" where
  "displayNote r s =
     (let note = heap s r;
          titlePlaceholder = or_else (editorTitle_placeholder s) (js ''Untitled Note'');
          rawPlaceholder = or_else (rawTranscription_placeholder s) [];
          polishedPlaceholder = or_else (polishedNote_placeholder s) []
      in s\<lparr>editorTitle := or_else (Some (title note)) titlePlaceholder,
            rawTranscription_text := or_else (Some (rawTranscription note)) rawPlaceholder,
            polishedNote_html :=
              (if polishedNote note \<noteq> [] then Marked (polishedNote note)
               else Markup polishedPlaceholder)\<rparr>)"

text \<open>
  \<open>createNewNote\<close> (lines 576--594); the two arguments are the values of the two calls
  of \<open>Date.now()\<close>. \<open>mediaRecorder?.stop()\<close> asks the recorder to stop; its \<open>stop\<close> event
  is delivered later (\<open>mediaRecorder_onstop\<close> below).
\<close>

definition createNewNote :: "nat \<Rightarrow> nat \<Rightarrow> App \<Rightarrow> App" where
  "createNewNote now1 now2 s =
     (let r = nextRef s;
          s1 = s\<lparr>heap := (heap s)(r := \<lparr>note_id = js ''note_'' @ decimal now1, title = [],
                                          rawTranscription = [], polishedNote = [],
                                          timestamp = now2\<rparr>),
                 nextRef := Suc r, currentNote := Some r\<rparr>;
          s2 = (displayNote r s1)\<lparr>recordingStatus := js ''Ready to record''\<rparr>
      in if isRecording s2 then s2\<lparr>isRecording := False\<rparr> else stopLiveDisplay s2)"

text \<open>\<open>saveOrUpdateCurrentNote\<close> (lines 596--613).\<close>

definition saveOrUpdateCurrentNote :: "App \<Rightarrow> App" where
  "saveOrUpdateCurrentNote s =
     (case currentNote s of
        None \<Rightarrow> s
      | Some cur \<Rightarrow>
          (let s1 = s\<lparr>heap := (heap s)(cur := (heap s cur)
                          \<lparr>title := or_else (Some (trim (editorTitle s))) (js ''Untitled Note'')\<rparr>)\<rparr>;
               hasContent = (trim (rawTranscription (heap s1 cur)) \<noteq> []
                             \<or> trim (polishedNote (heap s1 cur)) \<noteq> [])
           in if \<not> hasContent then s1
              else (let noteIndex =
                          findIndex (\<lambda>n. note_id (heap s1 n) = note_id (heap s1 cur)) (notes_arr s1)
                    in saveNotesToLocalStorage
                         (if noteIndex > - 1
                          then s1\<lparr>notes_arr := (notes_arr s1)[nat noteIndex := cur]\<rparr>
                          else s1\<lparr>notes_arr := cur # notes_arr s1\<rparr>))))"

text \<open>\<open>displayNoteById\<close> (lines 693--700).\<close>

definition displayNoteById :: "jsstring \<Rightarrow> App \<Rightarrow> App" where
  "displayNoteById noteId s =
     (case find (\<lambda>n. note_id (heap s n) = noteId) (notes_arr s) of
        None \<Rightarrow> s
      | Some r \<Rightarrow> displayNote r (s\<lparr>currentNote := Some r\<rparr>))"

text \<open>\<open>deleteNote\<close> (lines 702--709).\<close>

definition deleteNote :: "jsstring \<Rightarrow> nat \<Rightarrow> nat \<Rightarrow> App \<Rightarrow> App" where
  "deleteNote noteId now1 now2 s =
     (let s1 = saveNotesToLocalStorage
                 (s\<lparr>notes_arr := filter (\<lambda>n. note_id (heap s n) \<noteq> noteId) (notes_arr s)\<rparr>)
      in case currentNote s1 of
           None \<Rightarrow> s1
         | Some cur \<Rightarrow>
             if note_id (heap s1 cur) = noteId then createNewNote now1 now2 s1 else s1)"

text \<open>\<open>clearAllNotes\<close> (lines 711--718); the flag is the answer to \<open>confirm\<close>.\<close>

definition clearAllNotes :: "bool \<Rightarrow> nat \<Rightarrow> nat \<Rightarrow> App \<Rightarrow> App" where
  "clearAllNotes confirmed now1 now2 s =
     (if confirmed
      then createNewNote now1 now2 (saveNotesToLocalStorage (s\<lparr>notes_arr := []\<rparr>))
      else s)"

section \<open>Transcription pipeline\<close>

text \<open>
  The methods of the pipeline are \<open>async\<close>. Each is cut at its \<open>await\<close>s: a \<open>_start\<close>
  function is the code up to the first \<open>await\<close> and says whether the method is now
  waiting, a \<open>_resume\<close> function is the code after it, with what the awaited promise
  gave. The functions without a suffix run a method to its end, with the results of all
  its awaits as arguments.

  A call of \<open>generateContent\<close> either throws or rejects, or gives a response whose
  \<open>text\<close> is a string or \<open>undefined\<close>.
\<close>

datatype response = Rejected | Resolved "jsstring option"

text \<open>The result of \<open>FileReader.readAsDataURL\<close>: an error, or the data URL.\<close>

datatype read_result = ReadFailed | ReadOk jsstring

definition polish_prompt :: "jsstring \<Rightarrow> jsstring" where
  "polish_prompt raw =
     js ''Take this raw transcription and create a polished, well-formatted note. Remove filler words, repetitions, and false starts. Format lists and use markdown for headings. Maintain original content and meaning. Raw transcription: ''
     @ raw"

text \<open>The \<open>contents\<close> of the two requests (lines 480--483 and 519).\<close>

definition transcription_contents :: "jsstring \<Rightarrow> jsstring \<Rightarrow> part list" where
  "transcription_contents base64Audio mimeType' =
     [Text (js ''Generate a complete, detailed transcript of this audio.''),
      InlineData mimeType' base64Audio]"

definition polish_contents :: "jsstring \<Rightarrow> part list" where
  "polish_contents raw = [Text (polish_prompt raw)]"

text \<open>\<open>getPolishedNote\<close>, lines 509--523.\<close>

definition getPolishedNote_start :: "App \<Rightarrow> App \<times> bool" where
  "getPolishedNote_start s =
     (if rawTranscription_text s = [] \<or> trim (rawTranscription_text s) = []
      then (s\<lparr>recordingStatus := js ''No transcription to polish''\<rparr>, False)
      else (s\<lparr>recordingStatus := js ''Polishing note...'',
               requests := requests s @ [polish_contents (rawTranscription_text s)]\<rparr>,
            True))"

text \<open>\<open>getPolishedNote\<close>, lines 524--573.\<close>

definition getPolishedNote_resume :: "response \<Rightarrow> App \<Rightarrow> App" where
  "getPolishedNote_resume resp s =
     (case resp of
        Rejected \<Rightarrow> s\<lparr>recordingStatus := js ''Error polishing note. Please try again.''\<rparr>
      | Resolved None \<Rightarrow> s\<lparr>recordingStatus := js ''Polishing failed or returned empty.''\<rparr>
      | Resolved (Some polishedText) \<Rightarrow>
          if polishedText \<noteq> [] then
            (let s1 = s\<lparr>polishedNote_html := Marked polishedText\<rparr>;
                 s2 = s1\<lparr>editorTitle := derived_editorTitle polishedText (editorTitle s1)\<rparr>;
                 s3 = (case currentNote s2 of
                         None \<Rightarrow> s2
                       | Some cur \<Rightarrow>
                           s2\<lparr>heap := (heap s2)(cur := (heap s2 cur)
                                         \<lparr>polishedNote := polishedText\<rparr>)\<rparr>)
             in (saveOrUpdateCurrentNote s3)
                  \<lparr>recordingStatus := js ''Note polished. Ready for next recording.''\<rparr>)
          else s\<lparr>recordingStatus := js ''Polishing failed or returned empty.''\<rparr>)"

definition getPolishedNote :: "response \<Rightarrow> App \<Rightarrow> App" where
  "getPolishedNote resp s =
     (case getPolishedNote_start s of
        (s1, True) \<Rightarrow> getPolishedNote_resume resp s1
      | (s1, False) \<Rightarrow> s1)"

text \<open>\<open>getTranscription\<close>, lines 478--487.\<close>

definition getTranscription_start :: "jsstring \<Rightarrow> jsstring \<Rightarrow> App \<Rightarrow> App" where
  "getTranscription_start base64Audio mimeType' s =
     s\<lparr>recordingStatus := js ''Getting transcription...'',
       requests := requests s @ [transcription_contents base64Audio mimeType']\<rparr>"

text \<open>
  \<open>getTranscription\<close>, lines 488--505, up to the \<open>await\<close> inside \<open>getPolishedNote\<close>;
  the flag says whether the polishing request was sent.
\<close>

definition getTranscription_resume :: "response \<Rightarrow> App \<Rightarrow> App \<times> bool" where
  "getTranscription_resume resp s =
     (case resp of
        Rejected \<Rightarrow>
          (s\<lparr>recordingStatus := js ''Error getting transcription. Please try again.''\<rparr>, False)
      | Resolved None \<Rightarrow>
          (s\<lparr>recordingStatus := js ''Transcription failed or returned empty.''\<rparr>, False)
      | Resolved (Some transcriptionText) \<Rightarrow>
          if transcriptionText \<noteq> [] then
            (let s1 = s\<lparr>rawTranscription_text := transcriptionText\<rparr>;
                 s2 = (case currentNote s1 of
                         None \<Rightarrow> s1
                       | Some cur \<Rightarrow>
                           s1\<lparr>heap := (heap s1)(cur := (heap s1 cur)
                                         \<lparr>rawTranscription := transcriptionText\<rparr>)\<rparr>)
             in getPolishedNote_start
                  (s2\<lparr>recordingStatus := js ''Transcription complete. Polishing note...''\<rparr>))
          else (s\<lparr>recordingStatus := js ''Transcription failed or returned empty.''\<rparr>, False))"

definition getTranscription ::
  "jsstring \<Rightarrow> jsstring \<Rightarrow> response \<Rightarrow> response \<Rightarrow> App \<Rightarrow> App" where
  "getTranscription base64Audio mimeType' resp1 resp2 s =
     (case getTranscription_resume resp1 (getTranscription_start base64Audio mimeType' s) of
        (s1, True) \<Rightarrow> getPolishedNote_resume resp2 s1
      | (s1, False) \<Rightarrow> s1)"

text \<open>\<open>processAudio\<close>, lines 447--463: true when the file reader was started.\<close>

definition processAudio_start :: "Blob \<Rightarrow> App \<Rightarrow> App \<times> bool" where
  "processAudio_start audioBlob s =
     (if blob_size audioBlob = 0
      then (s\<lparr>recordingStatus := js ''No audio data captured. Please try again.''\<rparr>, False)
      else (s\<lparr>recordingStatus := js ''Converting audio...''\<rparr>, True))"

definition processAudio_catch :: "App \<Rightarrow> App" where
  "processAudio_catch s =
     s\<lparr>recordingStatus := js ''Error processing recording. Please try again.''\<rparr>"

text \<open>
  \<open>processAudio\<close>, lines 463--471: \<open>base64data.split('','')[1]\<close> is the second piece of
  the data URL, \<open>undefined\<close> when there is none. True when the transcription request was
  sent.
\<close>

definition processAudio_resume :: "Blob \<Rightarrow> read_result \<Rightarrow> App \<Rightarrow> App \<times> bool" where
  "processAudio_resume audioBlob rd s =
     (case rd of
        ReadFailed \<Rightarrow> (processAudio_catch s, False)
      | ReadOk base64data \<Rightarrow>
          (case split (of_char CHR '','') base64data of
             _ # base64Audio # _ \<Rightarrow>
               if base64Audio = [] \<or> blob_type audioBlob = []
               then (processAudio_catch s, False)
               else (getTranscription_start base64Audio (blob_type audioBlob) s, True)
           | _ \<Rightarrow> (processAudio_catch s, False)))"

definition processAudio ::
  "Blob \<Rightarrow> read_result \<Rightarrow> response \<Rightarrow> response \<Rightarrow> App \<Rightarrow> App" where
  "processAudio audioBlob rd resp1 resp2 s =
     (case processAudio_start audioBlob s of
        (s1, False) \<Rightarrow> s1
      | (s1, True) \<Rightarrow>
          (case processAudio_resume audioBlob rd s1 of
             (s2, False) \<Rightarrow> s2
           | (s2, True) \<Rightarrow>
               (case getTranscription_resume resp1 s2 of
                  (s3, False) \<Rightarrow> s3
                | (s3, True) \<Rightarrow> getPolishedNote_resume resp2 s3)))"

section \<open>File upload (handleFileUpload, lines 158--183)\<close>

definition maxSizeInMB :: nat where
  "maxSizeInMB = 50"

text \<open>
  Up to the \<open>await\<close>: the blob whose reading was started, or \<open>None\<close> when the handler
  has returned. \<open>processAudio\<close> catches what it throws, so the \<open>catch\<close> of the handler is
  never entered.
\<close>

definition handleFileUpload_start ::
  "File list \<Rightarrow> nat \<Rightarrow> nat \<Rightarrow> App \<Rightarrow> App \<times> Blob option" where
  "handleFileUpload_start files now1 now2 s =
     (case files of
        [] \<Rightarrow> (s, None)
      | file # _ \<Rightarrow>
          if file_size file > maxSizeInMB * 1024 * 1024
          then (s\<lparr>recordingStatus :=
                     js ''File is too large (max '' @ decimal maxSizeInMB @ js ''MB).'',
                   audioUpload_value := []\<rparr>, None)
          else (case processAudio_start (blob_of_file file)
                       ((createNewNote now1 now2 s)
                          \<lparr>recordingStatus :=
                             js ''Processing '' @ [34] @ file_name file @ [34] @ js ''...''\<rparr>) of
                  (s1, True) \<Rightarrow> (s1, Some (blob_of_file file))
                | (s1, False) \<Rightarrow> (s1\<lparr>audioUpload_value := []\<rparr>, None)))"

text \<open>The \<open>finally\<close> block, run when \<open>processAudio\<close> has settled.\<close>

definition handleFileUpload_finally :: "App \<Rightarrow> App" where
  "handleFileUpload_finally s = s\<lparr>audioUpload_value := []\<rparr>"

definition handleFileUpload ::
  "File list \<Rightarrow> nat \<Rightarrow> nat \<Rightarrow> read_result \<Rightarrow> response \<Rightarrow> response \<Rightarrow> App \<Rightarrow> App" where
  "handleFileUpload files now1 now2 rd resp1 resp2 s =
     (case handleFileUpload_start files now1 now2 s of
        (s1, None) \<Rightarrow> s1
      | (s1, Some audioBlob) \<Rightarrow>
          handleFileUpload_finally
            (case processAudio_resume audioBlob rd s1 of
               (s2, False) \<Rightarrow> s2
             | (s2, True) \<Rightarrow>
                 (case getTranscription_resume resp1 s2 of
                    (s3, False) \<Rightarrow> s3
                  | (s3, True) \<Rightarrow> getPolishedNote_resume resp2 s3)))"

section \<open>Recording\<close>

text \<open>
  A promise or a call of the platform either succeeds or throws; of what is thrown the
  code reads only \<open>error instanceof Error ? error.name : ''Unknown''\<close>, which is what
  \<open>Threw\<close> carries.
\<close>

datatype 'a outcome = Fulfilled 'a | Threw jsstring

text \<open>
  What the platform does after a stream was acquired: the two constructor calls of
  \<open>MediaRecorder\<close> (each gives the \<open>mimeType\<close> of the recorder or throws) and
  \<open>mediaRecorder.start()\<close>.
\<close>

record recorder_env =
  webm_recorder :: "jsstring outcome"
  default_recorder :: "jsstring outcome"
  start_outcome :: "unit outcome"

text \<open>Where \<open>startRecording\<close> is waiting.\<close>

datatype pending = Settled | AwaitClose | AwaitUserMedia | AwaitFallbackUserMedia

text \<open>\<open>stream.getTracks().forEach((track) => track.stop())\<close>.\<close>

definition stop_tracks :: "nat \<Rightarrow> App \<Rightarrow> App" where
  "stop_tracks sid s = s\<lparr>media_log := media_log s @ [Stopped sid]\<rparr>"

text \<open>\<open>this.stream?.getTracks().forEach((track) => track.stop())\<close>.\<close>

definition stop_stream :: "App \<Rightarrow> App" where
  "stop_stream s = (case stream s of None \<Rightarrow> s | Some sid \<Rightarrow> stop_tracks sid s)"

text \<open>
  \<open>setupAudioVisualizer\<close> (lines 237--250), the part of \<open>startLiveDisplay\<close> that writes
  a modelled field.
\<close>

definition startLiveDisplay :: "App \<Rightarrow> App" where
  "startLiveDisplay s =
     (if stream s = None \<or> audioContext s then s else s\<lparr>audioContext := True\<rparr>)"

text \<open>The \<open>catch\<close> block of \<open>startRecording\<close> (lines 413--431).\<close>

definition startRecording_catch :: "jsstring \<Rightarrow> App \<Rightarrow> App" where
  "startRecording_catch errorName s =
     (let s1 = s\<lparr>recordingStatus :=
                   (if errorName = js ''NotAllowedError'' \<or> errorName = js ''PermissionDeniedError''
                    then js ''Microphone permission denied. Please check browser settings.''
                    else js ''Error accessing microphone. Please check connection.''),
                 isRecording := False\<rparr>
      in stopLiveDisplay ((stop_stream s1)\<lparr>stream := None\<rparr>))"

text \<open>Lines 373--376: after the audio context is closed, up to the first \<open>getUserMedia\<close>.\<close>

definition startRecording_request :: "App \<Rightarrow> App \<times> pending" where
  "startRecording_request s =
     (s\<lparr>audioContext := False,
        recordingStatus := js ''Requesting microphone access...''\<rparr>, AwaitUserMedia)"

text \<open>Lines 369--372: up to the first \<open>await\<close> that is reached.\<close>

definition startRecording_start :: "App \<Rightarrow> App \<times> pending" where
  "startRecording_start s =
     (let s1 = stop_stream (s\<lparr>audioChunks := []\<rparr>)
      in if audioContext s1 then (s1, AwaitClose) else startRecording_request s1)"

definition startRecording_closed :: "unit outcome \<Rightarrow> App \<Rightarrow> App \<times> pending" where
  "startRecording_closed r s =
     (case r of
        Threw errorName \<Rightarrow> (startRecording_catch errorName s, Settled)
      | Fulfilled _ \<Rightarrow> startRecording_request s)"

text \<open>
  Lines 376/378 and 386--412: a \<open>getUserMedia\<close> resolved with a new stream, which is
  stored in \<open>this.stream\<close>; then the recorder is built and started.
\<close>

definition startRecording_acquired :: "recorder_env \<Rightarrow> App \<Rightarrow> App" where
  "startRecording_acquired env s =
     (let sid = nextStream s;
          s1 = s\<lparr>stream := Some sid, nextStream := Suc sid,
                 media_log := media_log s @ [Acquired sid]\<rparr>
      in case (case webm_recorder env of
                 Fulfilled m \<Rightarrow> Fulfilled m
               | Threw _ \<Rightarrow> default_recorder env) of
           Threw errorName \<Rightarrow> startRecording_catch errorName s1
         | Fulfilled m \<Rightarrow>
             (let s2 = s1\<lparr>mediaRecorder := Some \<lparr>recorder_stream = sid, mimeType = m\<rparr>\<rparr>
              in case start_outcome env of
                   Threw errorName \<Rightarrow> startRecording_catch errorName s2
                 | Fulfilled _ \<Rightarrow> startLiveDisplay (s2\<lparr>isRecording := True\<rparr>)))"

text \<open>The first \<open>getUserMedia\<close> settled (lines 375--385).\<close>

definition startRecording_media :: "unit outcome \<Rightarrow> recorder_env \<Rightarrow> App \<Rightarrow> App \<times> pending" where
  "startRecording_media r env s =
     (case r of
        Fulfilled _ \<Rightarrow> (startRecording_acquired env s, Settled)
      | Threw _ \<Rightarrow> (s, AwaitFallbackUserMedia))"

text \<open>The second \<open>getUserMedia\<close>, with the three processing options off, settled.\<close>

definition startRecording_fallback :: "unit outcome \<Rightarrow> recorder_env \<Rightarrow> App \<Rightarrow> App" where
  "startRecording_fallback r env s =
     (case r of
        Fulfilled _ \<Rightarrow> startRecording_acquired env s
      | Threw errorName \<Rightarrow> startRecording_catch errorName s)"

text \<open>
  \<open>startRecording\<close> run to its end: the results of closing the audio context, of the two
  \<open>getUserMedia\<close> calls and of the recorder, each used only if the run reaches it.
\<close>

definition startRecording ::
  "unit outcome \<Rightarrow> unit outcome \<Rightarrow> unit outcome \<Rightarrow> recorder_env \<Rightarrow> App \<Rightarrow> App" where
  "startRecording closed media1 media2 env s =
     (case startRecording_start s of
        (s1, AwaitClose) \<Rightarrow>
          (case startRecording_closed closed s1 of
             (s2, AwaitUserMedia) \<Rightarrow>
               (case startRecording_media media1 env s2 of
                  (s3, AwaitFallbackUserMedia) \<Rightarrow> startRecording_fallback media2 env s3
                | (s3, _) \<Rightarrow> s3)
           | (s2, _) \<Rightarrow> s2)
      | (s1, AwaitUserMedia) \<Rightarrow>
          (case startRecording_media media1 env s1 of
             (s3, AwaitFallbackUserMedia) \<Rightarrow> startRecording_fallback media2 env s3
           | (s3, _) \<Rightarrow> s3)
      | (s1, _) \<Rightarrow> s1)"

text \<open>
  \<open>stopRecording\<close> (lines 434--444). \<open>mediaRecorder.stop()\<close> asks the recorder to stop;
  the recorder then fires \<open>dataavailable\<close> and \<open>stop\<close>.
\<close>

definition stopRecording :: "App \<Rightarrow> App" where
  "stopRecording s =
     (if mediaRecorder s \<noteq> None \<and> isRecording s
      then s\<lparr>isRecording := False, recordingStatus := js ''Processing audio...''\<rparr>
      else if \<not> isRecording s then stopLiveDisplay s else s)"

text \<open>\<open>toggleRecording\<close> (lines 229--235), up to the first \<open>await\<close> that is reached.\<close>

definition toggleRecording :: "App \<Rightarrow> App \<times> pending" where
  "toggleRecording s =
     (if \<not> isRecording s then startRecording_start s else (stopRecording s, Settled))"

text \<open>The handler \<open>ondataavailable\<close> (lines 393--394).\<close>

definition mediaRecorder_ondataavailable :: "Blob \<Rightarrow> App \<Rightarrow> App" where
  "mediaRecorder_ondataavailable data s =
     (if blob_size data > 0 then s\<lparr>audioChunks := audioChunks s @ [data]\<rparr> else s)"

text \<open>
  The handler \<open>onstop\<close> (lines 395--407). \<open>new Blob(chunks, {type})\<close> has the chunks'
  sizes added up and the given type. \<open>processAudio\<close> is called and not awaited: it runs
  up to its own \<open>await\<close>, then the handler goes on. The result holds the blob whose
  reading was started, if any.
\<close>

definition mediaRecorder_onstop :: "App \<Rightarrow> App \<times> Blob option" where
  "mediaRecorder_onstop s =
     (let s1 = stopLiveDisplay s;
          audioBlob = \<lparr>blob_size = sum_list (map blob_size (audioChunks s1)),
                       blob_type = or_else (map_option mimeType (mediaRecorder s1))
                                     (js ''audio/webm'')\<rparr>;
          (s2, reading) =
            (if length (audioChunks s1) > 0 then processAudio_start audioBlob s1
             else (s1\<lparr>recordingStatus := js ''No audio data captured. Please try again.''\<rparr>,
                   False))
      in ((stop_stream s2)\<lparr>stream := None\<rparr>, if reading then Some audioBlob else None))"

text \<open>
  A recording stopped by the user and run to its end: \<open>stopRecording\<close>, the recorder's
  \<open>stop\<close> event, and the pipeline on the captured audio.
\<close>

definition stop_and_process :: "read_result \<Rightarrow> response \<Rightarrow> response \<Rightarrow> App \<Rightarrow> App" where
  "stop_and_process rd resp1 resp2 s =
     (case mediaRecorder_onstop (stopRecording s) of
        (s1, None) \<Rightarrow> s1
      | (s1, Some audioBlob) \<Rightarrow>
          (case processAudio_resume audioBlob rd s1 of
             (s2, False) \<Rightarrow> s2
           | (s2, True) \<Rightarrow>
               (case getTranscription_resume resp1 s2 of
                  (s3, False) \<Rightarrow> s3
                | (s3, True) \<Rightarrow> getPolishedNote_resume resp2 s3)))"

text \<open>The streams that were acquired and whose tracks were never stopped.\<close>

definition live_streams :: "App \<Rightarrow> nat list" where
  "live_streams s =
     filter (\<lambda>sid. Acquired sid \<in> set (media_log s) \<and> Stopped sid \<notin> set (media_log s))
       [0 ..< nextStream s]"

text \<open>How often the tracks of a stream were stopped.\<close>

definition releases :: "nat \<Rightarrow> App \<Rightarrow> nat" where
  "releases sid s = length (filter (\<lambda>e. e = Stopped sid) (media_log s))"

section \<open>The application as an event system\<close>

text \<open>
  The constructor (lines 60--134) on the modelled fields: the page's placeholders, the
  stored notes and the two clock readings of \<open>createNewNote\<close> are its inputs.
\<close>

definition new_App ::
  "jsstring option \<Rightarrow> jsstring option \<Rightarrow> jsstring option \<Rightarrow> Note list option
     \<Rightarrow> nat \<Rightarrow> nat \<Rightarrow> App" where
  "new_App titlePlaceholder rawPlaceholder polishedPlaceholder saved now1 now2 =
     (createNewNote now1 now2
        (loadNotesFromLocalStorage
           \<lparr>heap = (\<lambda>_. \<lparr>note_id = [], title = [], rawTranscription = [],
                           polishedNote = [], timestamp = 0\<rparr>),
            nextRef = 0, notes_arr = [], currentNote = None, recordingStatus = [],
            rawTranscription_text = [], polishedNote_html = Markup [], editorTitle = [],
            editorTitle_placeholder = titlePlaceholder,
            rawTranscription_placeholder = rawPlaceholder,
            polishedNote_placeholder = polishedPlaceholder,
            audioUpload_value = [], mediaRecorder = None, audioChunks = [],
            isRecording = False, stream = None, audioContext = False, nextStream = 0,
            media_log = [], requests = [], voiceNotes = saved\<rparr>))
       \<lparr>recordingStatus := js ''Ready to record''\<rparr>"

text \<open>
  Everything that can run one piece of the class's code: the listeners bound by
  \<open>bindEventListeners\<close> and \<open>renderSidebar\<close>, the recorder's handlers, and the
  continuations of the \<open>async\<close> methods, each with what the platform hands it. The user
  can also type into the three editable elements, and the focus and blur handlers at
  the end of the file write their text as well (\<open>EditTitle\<close>, \<open>EditRaw\<close>,
  \<open>EditPolished\<close>).
\<close>

datatype event =
    NewNote nat nat
  | Upload "File list" nat nat
  | UploadSettled
  | FileRead Blob read_result
  | Transcribed response
  | Polished response
  | ToggleRecording
  | ContextClosed "unit outcome"
  | UserMedia "unit outcome" recorder_env
  | FallbackUserMedia "unit outcome" recorder_env
  | DataAvailable Blob
  | RecorderStopped
  | SelectNote jsstring
  | DeleteNote jsstring nat nat
  | ClearAll bool nat nat
  | EditTitle jsstring
  | EditRaw jsstring
  | EditPolished html

fun step :: "event \<Rightarrow> App \<Rightarrow> App" where
  "step (NewNote now1 now2) s = createNewNote now1 now2 s"
| "step (Upload files now1 now2) s = fst (handleFileUpload_start files now1 now2 s)"
| "step UploadSettled s = handleFileUpload_finally s"
| "step (FileRead audioBlob rd) s = fst (processAudio_resume audioBlob rd s)"
| "step (Transcribed resp) s = fst (getTranscription_resume resp s)"
| "step (Polished resp) s = getPolishedNote_resume resp s"
| "step ToggleRecording s = fst (toggleRecording s)"
| "step (ContextClosed r) s = fst (startRecording_closed r s)"
| "step (UserMedia r env) s = fst (startRecording_media r env s)"
| "step (FallbackUserMedia r env) s = startRecording_fallback r env s"
| "step (DataAvailable data) s = mediaRecorder_ondataavailable data s"
| "step RecorderStopped s = fst (mediaRecorder_onstop s)"
| "step (SelectNote noteId) s = displayNoteById noteId s"
| "step (DeleteNote noteId now1 now2) s = deleteNote noteId now1 now2 s"
| "step (ClearAll confirmed now1 now2) s = clearAllNotes confirmed now1 now2 s"
| "step (EditTitle t) s = s\<lparr>editorTitle := t\<rparr>"
| "step (EditRaw t) s = s\<lparr>rawTranscription_text := t\<rparr>"
| "step (EditPolished h) s = s\<lparr>polishedNote_html := h\<rparr>"

text \<open>The events of a list, first to last.\<close>

fun run :: "event list \<Rightarrow> App \<Rightarrow> App" where
  "run [] s = s"
| "run (e # es) s = run es (step e s)"

section \<open>Predicates and examples used by the properties\<close>

text \<open>What \<open>hasContent\<close> tests (lines 600--602), for a note.\<close>

definition has_content :: "Note \<Rightarrow> bool" where
  "has_content n \<longleftrightarrow> trim (rawTranscription n) \<noteq> [] \<or> trim (polishedNote n) \<noteq> []"

text \<open>At least one of the two text fields of a note is not the empty string.\<close>

definition nonempty_note :: "Note \<Rightarrow> bool" where
  "nonempty_note n \<longleftrightarrow> rawTranscription n \<noteq> [] \<or> polishedNote n \<noteq> []"

text \<open>
  Every note of the store, and every note written to \<open>localStorage\<close>, has one of its
  two text fields non-empty.
\<close>

definition stored_nonempty :: "App \<Rightarrow> bool" where
  "stored_nonempty s \<longleftrightarrow>
     (\<forall>r\<in>set (notes_arr s). nonempty_note (heap s r))
     \<and> (\<forall>saved\<in>set_option (voiceNotes s). \<forall>n\<in>set saved. nonempty_note n)"

text \<open>
  The references held by the application are below \<open>nextRef\<close>: an object created
  later is none of them.
\<close>

definition allocated :: "App \<Rightarrow> bool" where
  "allocated s \<longleftrightarrow>
     (\<forall>r\<in>set (notes_arr s). r < nextRef s)
     \<and> (\<forall>r\<in>set_option (currentNote s). r < nextRef s)"

text \<open>
  Title derivation as the specification words it: rule (a), the first line beginning
  with a heading marker, the marker stripped, trimmed; rule (b), the first non-empty
  line, cleaned and trimmed, if more than 3 long, cut to 60 with an ellipsis if
  longer; rule (c), no title.
\<close>

definition spec_title :: "jsstring \<Rightarrow> jsstring option" where
  "spec_title polishedText =
     (case find (\<lambda>l. startsWith l [hash]) (title_lines polishedText) of
        Some l \<Rightarrow> Some (trim (dropWhile (\<lambda>c. c = hash) l))
      | None \<Rightarrow>
          (case find (\<lambda>l. l \<noteq> []) (title_lines polishedText) of
             None \<Rightarrow> None
           | Some l \<Rightarrow>
               (let c = trim (replace_leading_markup l)
                in if length c > 3
                   then Some (if length c > 60 then take 60 c @ js ''...'' else c)
                   else None)))"

text \<open>A page without placeholders, nothing in \<open>localStorage\<close>, the clock at 1.\<close>

definition example_app :: App where
  "example_app = new_App None None None None 1 1"

text \<open>Two notes in \<open>localStorage\<close>.\<close>

definition note_a :: Note where
  "note_a = \<lparr>note_id = js ''note_1'', title = js ''A'', rawTranscription = js ''alpha'',
             polishedNote = js ''# A'', timestamp = 1\<rparr>"

definition note_b :: Note where
  "note_b = \<lparr>note_id = js ''note_2'', title = js ''B'', rawTranscription = js ''beta'',
             polishedNote = js ''# B'', timestamp = 2\<rparr>"

definition stored_app :: App where
  "stored_app = new_App None None None (Some [note_a, note_b]) 3 3"

text \<open>A platform on which recording works: the recorder is built and starts.\<close>

definition working_env :: recorder_env where
  "working_env = \<lparr>webm_recorder = Fulfilled (js ''audio/webm''),
                    default_recorder = Fulfilled (js ''audio/webm''),
                    start_outcome = Fulfilled ()\<rparr>"

text \<open>Three polished texts: a heading first, a rule first, one long list item.\<close>

definition greeting_text :: jsstring where
  "greeting_text = js ''# Greeting'' @ [newline] @ js ''Hello world.''"

definition ruled_text :: jsstring where
  "ruled_text = js ''---'' @ [newline] @ js ''Meeting notes''"

definition long_text :: jsstring where
  "long_text =
     js ''- This sentence is the first line of a note and it is far too long for a title''"


text \<open>The fresh application after the user typed a title with blanks around it.\<close>

definition titled_draft :: App where
  "titled_draft = step (EditTitle (js '' Memo '')) example_app"

text \<open>The second stored note selected in the sidebar, its title edited.\<close>

definition renamed_b :: App where
  "renamed_b = run [SelectNote (js ''note_2''), EditTitle (js ''B2'')] stored_app"

text \<open>A transcription has arrived for the draft of the application with two stored notes.\<close>

definition transcribed_draft :: App where
  "transcribed_draft = step (Transcribed (Resolved (Some (js ''hello'')))) stored_app"

text \<open>An upload of 60 MB.\<close>

definition big_file :: File where
  "big_file = \<lparr>file_name = js ''talk.mp3'', file_size = 60 * 1024 * 1024,
                file_type = js ''audio/mpeg''\<rparr>"

text \<open>The fresh application, recording.\<close>

definition recording_app :: App where
  "recording_app = run [ToggleRecording, UserMedia (Fulfilled ()) working_env] example_app"

text \<open>A \<open>dataavailable\<close> event without data.\<close>

definition silent_chunk :: Blob where
  "silent_chunk = \<lparr>blob_size = 0, blob_type = js ''audio/webm''\<rparr>"




text \<open>
  The record button is clicked twice before the first \<open>getUserMedia\<close> has resolved
  (\<open>isRecording\<close> is still false at the second click, so \<open>toggleRecording\<close> starts
  again); then both requests resolve.
\<close>

definition double_start :: App where
  "double_start =
     run [ToggleRecording, ToggleRecording,
          UserMedia (Fulfilled ()) working_env, UserMedia (Fulfilled ()) working_env]
       example_app"

text \<open>After that the user stops the recording, and the recorder's \<open>stop\<close> event arrives.\<close>

definition double_start_stopped :: App where
  "double_start_stopped = run [ToggleRecording, RecorderStopped] double_start"

text \<open>The two invariants of the note store together.\<close>

definition store_inv :: "App \<Rightarrow> bool" where
  "store_inv s \<longleftrightarrow> allocated s \<and> stored_nonempty s"

text \<open>
  A stream that was acquired, was never stopped, and is not the one in \<open>this.stream\<close>.
\<close>

definition lost :: "nat \<Rightarrow> App \<Rightarrow> bool" where
  "lost sid s \<longleftrightarrow>
     stream s \<noteq> Some sid \<and> sid < nextStream s
     \<and> Acquired sid \<in> set (media_log s) \<and> Stopped sid \<notin> set (media_log s)"

text \<open>
  One take: record, stop, one chunk of audio, the recorder's \<open>stop\<close> event, the file
  reader's result, and the transcript that the service returns.
\<close>

definition clip :: Blob where
  "clip = \<lparr>blob_size = 4096, blob_type = js ''audio/webm''\<rparr>"

definition take_events :: "jsstring \<Rightarrow> event list" where
  "take_events transcript =
     [ToggleRecording, UserMedia (Fulfilled ()) working_env, ToggleRecording,
      DataAvailable clip, RecorderStopped,
      FileRead clip (ReadOk (js ''data:audio/webm;base64,AAAA'')),
      Transcribed (Resolved (Some transcript))]"

text \<open>
  A take whose transcript is \<open>hello\<close> and whose polished text is one blank; then a
  second take on the same note whose transcript is one blank.
\<close>

definition first_take :: App where
  "first_take =
     run (take_events (js ''hello'') @ [Polished (Resolved (Some (js '' '')))]) example_app"

definition blank_events :: "event list" where
  "blank_events =
     take_events (js ''hello'') @ [Polished (Resolved (Some (js '' '')))]
     @ take_events (js '' '')"

section \<open>Strings and loops: auxiliary facts\<close>

lemma trim_Nil [simp]: "trim [] = []"
  by (simp add: trim_def)

text \<open>A trimmed string is empty or has no white space at either end.\<close>

lemma trim_ends:
  "trim s = [] \<or> (\<not> is_space (hd (trim s)) \<and> \<not> is_space (last (trim s)))"
proof (cases "dropWhile is_space s = []")
  case True
  have "trim s = []" unfolding trim_def True by simp
  then show ?thesis by simp
next
  case False
  let ?d = "dropWhile is_space s"
  let ?e = "dropWhile is_space (rev ?d)"
  have hd_d: "\<not> is_space (hd ?d)" using False by (rule hd_dropWhile)
  have "last (rev ?d) = hd ?d" using False by (simp add: last_rev)
  then have "\<exists>x\<in>set (rev ?d). \<not> is_space x"
    using False hd_d by (metis last_in_set rev_is_Nil_conv)
  then have e_ne: "?e \<noteq> []" by (simp add: dropWhile_eq_Nil_conv)
  have hd_e: "\<not> is_space (hd ?e)" using e_ne by (rule hd_dropWhile)
  have "last ?e = last (rev ?d)"
    using e_ne by (metis last_appendR takeWhile_dropWhile_id)
  then have last_e: "last ?e = hd ?d" using False by (simp add: last_rev)
  have "trim s = rev ?e" by (simp add: trim_def)
  then show ?thesis using e_ne hd_e last_e hd_d
    by (simp add: hd_rev last_rev)
qed

lemma trim_id:
  assumes "s \<noteq> []" "\<not> is_space (hd s)" "\<not> is_space (last s)"
  shows "trim s = s"
proof -
  have a: "dropWhile is_space s = s" using assms(1,2) by (cases s) auto
  have "rev s \<noteq> []" "\<not> is_space (hd (rev s))" using assms by (simp_all add: hd_rev)
  then have b: "dropWhile is_space (rev s) = rev s" by (cases "rev s") auto
  show ?thesis by (simp add: trim_def a b)
qed

lemma trim_trim [simp]: "trim (trim s) = trim s"
proof (cases "trim s = []")
  case True
  then show ?thesis by simp
next
  case False
  with trim_ends[of s] show ?thesis by (intro trim_id) auto
qed

lemma hash_not_space [simp]: "\<not> is_space hash"
  by (simp add: hash_def is_space_def)

lemma startsWith_hash: "startsWith l [hash] \<longleftrightarrow> (l \<noteq> [] \<and> hd l = hash)"
  by (cases l) (auto simp: startsWith_def)

text \<open>
  On a trimmed line that begins with \<open>#\<close> the first loop always finds a non-empty
  title: the line ends in a unit that is not white space, so something is left after
  the marker.
\<close>

lemma heading_title_nonempty:
  assumes tl: "trim l = l" and st: "startsWith l [hash]"
  shows "trim (replace_heading_marker l) \<noteq> []"
    and "takeWhile is_space (dropWhile (\<lambda>c. c = hash) l) \<noteq> [] \<Longrightarrow>
           trim (replace_heading_marker l) = dropWhile is_space (dropWhile (\<lambda>c. c = hash) l)"
proof -
  from st have ne: "l \<noteq> []" and hd: "hd l = hash" by (auto simp: startsWith_hash)
  from trim_ends[of l] tl ne have last: "\<not> is_space (last l)" by auto
  let ?rest = "dropWhile (\<lambda>c. c = hash) l"
  let ?t = "dropWhile is_space ?rest"
  have tk: "takeWhile (\<lambda>c. c = hash) l \<noteq> []" using ne hd by (cases l) auto
  have main: "?t \<noteq> [] \<and> trim ?t = ?t" if w: "takeWhile is_space ?rest \<noteq> []"
  proof -
    have rne: "?rest \<noteq> []"
    proof
      assume "?rest = []"
      then have "takeWhile is_space ?rest = []" by (simp only: takeWhile.simps)
      with w show False by simp
    qed
    have "last ?rest = last l"
      using rne by (metis last_appendR takeWhile_dropWhile_id)
    then have "\<exists>x\<in>set ?rest. \<not> is_space x" using rne last by (metis last_in_set)
    then have tne: "?t \<noteq> []" by (simp add: dropWhile_eq_Nil_conv)
    have "last ?t = last ?rest"
      using tne by (metis last_appendR takeWhile_dropWhile_id)
    then have "\<not> is_space (last ?t)" using \<open>last ?rest = last l\<close> last by simp
    moreover have "\<not> is_space (hd ?t)" using tne by (rule hd_dropWhile)
    ultimately show ?thesis using tne by (simp add: trim_id)
  qed
  show "trim (replace_heading_marker l) \<noteq> []"
  proof (cases "takeWhile is_space ?rest \<noteq> []")
    case True
    with main tk show ?thesis by (simp add: replace_heading_marker_def Let_def)
  next
    case False
    then show ?thesis using tl ne by (simp add: replace_heading_marker_def Let_def)
  qed
  show "trim (replace_heading_marker l) = ?t" if "takeWhile is_space ?rest \<noteq> []"
    using main[OF that] that tk by (simp add: replace_heading_marker_def Let_def)
qed

lemma heading_loop_find:
  assumes "\<forall>l\<in>set ls. trim l = l"
  shows "heading_loop ls =
           map_option (\<lambda>l. trim (replace_heading_marker l)) (find (\<lambda>l. startsWith l [hash]) ls)"
  using assms
proof (induction ls)
  case Nil
  then show ?case by simp
next
  case (Cons l ls)
  then show ?case
    using heading_title_nonempty(1)[of l] by (auto simp: Let_def)
qed

lemma fallback_loop_find:
  "fallback_loop ls =
     map_option (\<lambda>l. take maxLength (trim (replace_leading_markup l))
                      @ (if length (trim (replace_leading_markup l)) > maxLength
                         then js ''...'' else []))
       (find (\<lambda>l. l \<noteq> [] \<and> length (trim (replace_leading_markup l)) > 3) ls)"
  by (induction ls) (auto simp: Let_def)

lemma title_lines_trimmed: "\<forall>l\<in>set (title_lines p). trim l = l"
  by (simp add: title_lines_def)

lemma greeting_lines: "title_lines greeting_text = [js ''# Greeting'', js ''Hello world.'']"
  by (simp add: title_lines_def greeting_text_def js_def newline_def trim_def is_space_def)

lemma ruled_lines: "title_lines ruled_text = [js ''---'', js ''Meeting notes'']"
  by (simp add: title_lines_def ruled_text_def js_def newline_def trim_def is_space_def)

lemma long_lines: "title_lines long_text = [long_text]"
  by (simp add: title_lines_def long_text_def js_def newline_def trim_def is_space_def)

lemma ruled_candidates:
  "trim (replace_leading_markup (js ''---'')) = []"
  "trim (replace_leading_markup (js ''Meeting notes'')) = js ''Meeting notes''"
  by (simp_all add: replace_leading_markup_def is_title_markup_def js_def is_space_def
        is_digit_def trim_def)

section \<open>Note store and example states: auxiliary facts\<close>

lemma findIndex_gt: "(findIndex P xs > - 1) = (\<exists>x\<in>set xs. P x)"
  by (induction xs) (auto simp: Let_def)

lemma findIndex_first:
  "findIndex P xs > - 1 \<Longrightarrow>
     nat (findIndex P xs) < length xs \<and> P (xs ! nat (findIndex P xs))
     \<and> (\<forall>j < nat (findIndex P xs). \<not> P (xs ! j))"
proof (induction xs)
  case Nil then show ?case by simp
next
  case (Cons x xs)
  show ?case
  proof (cases "P x")
    case True then show ?thesis by simp
  next
    case False
    with Cons.prems have gt: "findIndex P xs > - 1" by (simp add: Let_def split: if_splits)
    from Cons.IH[OF gt] have ih: "nat (findIndex P xs) < length xs" "P (xs ! nat (findIndex P xs))"
      "\<forall>j < nat (findIndex P xs). \<not> P (xs ! j)" by auto
    have eq: "nat (findIndex P (x # xs)) = Suc (nat (findIndex P xs))"
      using False gt by (simp add: Let_def nat_add_distrib)
    show ?thesis unfolding eq using ih False
      by (auto simp: nth_Cons split: nat.splits)
  qed
qed

lemma findIndex_eq:
  assumes "i < length xs" "P (xs ! i)" "\<forall>j<i. \<not> P (xs ! j)"
  shows "findIndex P xs = int i"
proof -
  have ex: "\<exists>x\<in>set xs. P x" using assms(1,2) nth_mem by blast
  then have gt: "findIndex P xs > - 1" by (simp add: findIndex_gt)
  from findIndex_first[OF gt] have a: "nat (findIndex P xs) < length xs" "P (xs ! nat (findIndex P xs))"
      "\<forall>j < nat (findIndex P xs). \<not> P (xs ! j)" by auto
  have "nat (findIndex P xs) = i"
    using a assms by (meson linorder_neqE_nat)
  then show ?thesis using gt by simp
qed

lemma save_unfold:
  assumes "currentNote s = Some cur"
  shows "saveOrUpdateCurrentNote s =
     (if \<not> has_content (heap s cur)
      then s\<lparr>heap := (heap s)(cur := (heap s cur)
                 \<lparr>title := or_else (Some (trim (editorTitle s))) (js ''Untitled Note'')\<rparr>)\<rparr>
      else if findIndex (\<lambda>n. note_id (heap s n) = note_id (heap s cur)) (notes_arr s) > - 1
      then saveNotesToLocalStorage
             (s\<lparr>heap := (heap s)(cur := (heap s cur)
                   \<lparr>title := or_else (Some (trim (editorTitle s))) (js ''Untitled Note'')\<rparr>),
                notes_arr := (notes_arr s)
                  [nat (findIndex (\<lambda>n. note_id (heap s n) = note_id (heap s cur)) (notes_arr s))
                     := cur]\<rparr>)
      else saveNotesToLocalStorage
             (s\<lparr>heap := (heap s)(cur := (heap s cur)
                   \<lparr>title := or_else (Some (trim (editorTitle s))) (js ''Untitled Note'')\<rparr>),
                notes_arr := cur # notes_arr s\<rparr>))"
proof -
  have P: "(\<lambda>n. note_id (((heap s)(cur := (heap s cur)\<lparr>title := t\<rparr>)) n)
                = note_id (heap s cur))
           = (\<lambda>n. note_id (heap s n) = note_id (heap s cur))" for t
    by (rule ext) simp
  show ?thesis
    using assms
    by (simp add: saveOrUpdateCurrentNote_def Let_def P has_content_def
             fun_upd_same del: fun_upd_apply)
qed

lemma decimal_digit: "n < 10 \<Longrightarrow> decimal n = [of_nat (48 + n)]"
  by (simp add: decimal.simps)

lemma example_app_eq:
  "example_app =
     \<lparr>heap = (\<lambda>_. \<lparr>note_id = [], title = [], rawTranscription = [], polishedNote = [], timestamp = 0\<rparr>)
               (0 := \<lparr>note_id = js ''note_1'', title = [], rawTranscription = [],
                       polishedNote = [], timestamp = 1\<rparr>),
      nextRef = 1, notes_arr = [], currentNote = Some 0,
      recordingStatus = js ''Ready to record'', rawTranscription_text = [],
      polishedNote_html = Markup [], editorTitle = js ''Untitled Note'',
      editorTitle_placeholder = None, rawTranscription_placeholder = None,
      polishedNote_placeholder = None, audioUpload_value = [], mediaRecorder = None,
      audioChunks = [], isRecording = False, stream = None, audioContext = False,
      nextStream = 0, media_log = [], requests = [], voiceNotes = None\<rparr>"
  by (simp add: example_app_def new_App_def createNewNote_def loadNotesFromLocalStorage_def
      displayNote_def stopLiveDisplay_def or_else_def Let_def decimal_digit js_def)

lemma stored_app_eq:
  "stored_app =
     \<lparr>heap = (\<lambda>_. \<lparr>note_id = [], title = [], rawTranscription = [], polishedNote = [], timestamp = 0\<rparr>)
               (0 := note_a, 1 := note_b,
                2 := \<lparr>note_id = js ''note_3'', title = [], rawTranscription = [],
                       polishedNote = [], timestamp = 3\<rparr>),
      nextRef = 3, notes_arr = [0, 1], currentNote = Some 2,
      recordingStatus = js ''Ready to record'', rawTranscription_text = [],
      polishedNote_html = Markup [], editorTitle = js ''Untitled Note'',
      editorTitle_placeholder = None, rawTranscription_placeholder = None,
      polishedNote_placeholder = None, audioUpload_value = [], mediaRecorder = None,
      audioChunks = [], isRecording = False, stream = None, audioContext = False,
      nextStream = 0, media_log = [], requests = [], voiceNotes = Some [note_a, note_b]\<rparr>"
  apply (simp add: stored_app_def new_App_def createNewNote_def loadNotesFromLocalStorage_def
      displayNote_def stopLiveDisplay_def or_else_def Let_def decimal_digit)
  apply (simp add: js_def)
  apply (rule ext)
  apply (simp add: upt_rec)
  done

lemma titled_draft_simps:
  "currentNote titled_draft = Some 0"
  "heap titled_draft 0 = \<lparr>note_id = js ''note_1'', title = [], rawTranscription = [],
                       polishedNote = [], timestamp = 1\<rparr>"
  "editorTitle titled_draft = js '' Memo ''"
  "notes_arr titled_draft = []"
  by (simp_all add: titled_draft_def example_app_eq)

lemma renamed_b_simps:
  "currentNote renamed_b = Some 1"
  "notes_arr renamed_b = [0, 1]"
  "heap renamed_b = heap stored_app"
  "heap stored_app 0 = note_a"
  "heap stored_app (Suc 0) = note_b"
  "heap stored_app 1 = note_b"
  "editorTitle renamed_b = js ''B2''"
  by (simp_all add: renamed_b_def stored_app_eq displayNoteById_def displayNote_def Let_def
       note_a_def note_b_def js_def)

lemma transcribed_draft_simps:
  "currentNote transcribed_draft = Some 2"
  "notes_arr transcribed_draft = [0, 1]"
  "heap transcribed_draft 0 = note_a"
  "heap transcribed_draft (Suc 0) = note_b"
  "heap transcribed_draft 1 = note_b"
  "heap transcribed_draft 2 = \<lparr>note_id = js ''note_3'', title = [], rawTranscription = js ''hello'',
                       polishedNote = [], timestamp = 3\<rparr>"
  "editorTitle transcribed_draft = js ''Untitled Note''"
  by (simp_all add: transcribed_draft_def stored_app_eq getTranscription_resume_def
       getPolishedNote_start_def Let_def js_def)

lemma ondata_empty:
  "\<forall>d\<in>set datas. blob_size d = 0 \<Longrightarrow> fold mediaRecorder_ondataavailable datas s = s"
  by (induction datas arbitrary: s) (auto simp: mediaRecorder_ondataavailable_def)

lemma recording_app_eq:
  "recording_app = example_app
     \<lparr>recordingStatus := js ''Requesting microphone access...'',
      mediaRecorder := Some \<lparr>recorder_stream = 0, mimeType = js ''audio/webm''\<rparr>,
      isRecording := True, stream := Some 0, audioContext := True, nextStream := 1,
      media_log := [Acquired 0]\<rparr>"
  by (simp add: recording_app_def example_app_eq toggleRecording_def startRecording_start_def
       startRecording_request_def startRecording_media_def startRecording_acquired_def
       startLiveDisplay_def stop_stream_def working_env_def Let_def)

section \<open>The note store under every event: auxiliary facts\<close>



lemma displayNote_frame [simp]:
  "heap (displayNote r s) = heap s" "nextRef (displayNote r s) = nextRef s"
  "notes_arr (displayNote r s) = notes_arr s" "currentNote (displayNote r s) = currentNote s"
  "voiceNotes (displayNote r s) = voiceNotes s" "isRecording (displayNote r s) = isRecording s"
  by (simp_all add: displayNote_def Let_def)

lemma createNewNote_fields:
  "heap (createNewNote a b s) = (heap s)(nextRef s := \<lparr>note_id = js ''note_'' @ decimal a, title = [],
        rawTranscription = [], polishedNote = [], timestamp = b\<rparr>)"
  "nextRef (createNewNote a b s) = Suc (nextRef s)"
  "notes_arr (createNewNote a b s) = notes_arr s"
  "currentNote (createNewNote a b s) = Some (nextRef s)"
  "voiceNotes (createNewNote a b s) = voiceNotes s"
  by (simp_all add: createNewNote_def Let_def stopLiveDisplay_def)




lemma title_upd_nonempty [simp]: "nonempty_note (n\<lparr>title := t\<rparr>) = nonempty_note n"
  by (simp add: nonempty_note_def)

lemma title_upd_content [simp]: "has_content (n\<lparr>title := t\<rparr>) = has_content n"
  by (simp add: has_content_def)




lemma store_inv_upd [simp]:
  "store_inv (s\<lparr>recordingStatus := x1\<rparr>) = store_inv s"
  "store_inv (s\<lparr>rawTranscription_text := x2\<rparr>) = store_inv s"
  "store_inv (s\<lparr>polishedNote_html := x3\<rparr>) = store_inv s"
  "store_inv (s\<lparr>editorTitle := x4\<rparr>) = store_inv s"
  "store_inv (s\<lparr>audioUpload_value := x5\<rparr>) = store_inv s"
  "store_inv (s\<lparr>mediaRecorder := x6\<rparr>) = store_inv s"
  "store_inv (s\<lparr>audioChunks := x7\<rparr>) = store_inv s"
  "store_inv (s\<lparr>isRecording := x8\<rparr>) = store_inv s"
  "store_inv (s\<lparr>stream := x9\<rparr>) = store_inv s"
  "store_inv (s\<lparr>audioContext := x10\<rparr>) = store_inv s"
  "store_inv (s\<lparr>nextStream := x11\<rparr>) = store_inv s"
  "store_inv (s\<lparr>media_log := x12\<rparr>) = store_inv s"
  "store_inv (s\<lparr>requests := x13\<rparr>) = store_inv s"
  by (simp_all add: store_inv_def allocated_def stored_nonempty_def)


lemma getPolishedNote_start_inv [simp]:
  "store_inv (fst (getPolishedNote_start s)) = store_inv s"
  by (simp add: getPolishedNote_start_def)


lemma getTranscription_resume_notes [simp]:
  "notes_arr (fst (getTranscription_resume resp s)) = notes_arr s"
  by (simp add: getTranscription_resume_def getPolishedNote_start_def Let_def
        split: response.splits option.splits)








lemma displayNoteById_notes [simp]: "notes_arr (displayNoteById noteId s) = notes_arr s"
  by (simp add: displayNoteById_def split: option.splits)

lemma processAudio_start_inv [simp]:
  "store_inv (fst (processAudio_start b s)) = store_inv s"
  "notes_arr (fst (processAudio_start b s)) = notes_arr s"
  by (simp_all add: processAudio_start_def)

lemma processAudio_resume_inv [simp]:
  "store_inv (fst (processAudio_resume b rd s)) = store_inv s"
  "notes_arr (fst (processAudio_resume b rd s)) = notes_arr s"
  by (simp_all add: processAudio_resume_def processAudio_catch_def getTranscription_start_def
        split: read_result.splits list.splits)


lemma handleFileUpload_start_notes [simp]:
  "notes_arr (fst (handleFileUpload_start files a b s)) = notes_arr s"
  by (auto simp: handleFileUpload_start_def createNewNote_fields processAudio_start_def
        split: list.splits prod.splits bool.splits)

lemma recording_inv [simp]:
  "store_inv (stop_stream s) = store_inv s"
  "store_inv (stopLiveDisplay s) = store_inv s"
  "store_inv (startLiveDisplay s) = store_inv s"
  "store_inv (stopRecording s) = store_inv s"
  "store_inv (mediaRecorder_ondataavailable d s) = store_inv s"
  by (simp_all add: stop_stream_def stop_tracks_def stopLiveDisplay_def startLiveDisplay_def
        stopRecording_def mediaRecorder_ondataavailable_def split: option.splits)

lemma recording_notes [simp]:
  "notes_arr (stop_stream s) = notes_arr s"
  "notes_arr (stopLiveDisplay s) = notes_arr s"
  "notes_arr (startLiveDisplay s) = notes_arr s"
  "notes_arr (stopRecording s) = notes_arr s"
  "notes_arr (mediaRecorder_ondataavailable d s) = notes_arr s"
  by (simp_all add: stop_stream_def stop_tracks_def stopLiveDisplay_def startLiveDisplay_def
        stopRecording_def mediaRecorder_ondataavailable_def split: option.splits)

lemma startRecording_catch_inv [simp]:
  "store_inv (startRecording_catch e s) = store_inv s"
  "notes_arr (startRecording_catch e s) = notes_arr s"
  by (simp_all add: startRecording_catch_def Let_def)

lemma startRecording_acquired_inv [simp]:
  "store_inv (startRecording_acquired env s) = store_inv s"
  "notes_arr (startRecording_acquired env s) = notes_arr s"
  by (simp_all add: startRecording_acquired_def Let_def split: outcome.splits)

lemma startRecording_segments_inv [simp]:
  "store_inv (fst (startRecording_request s)) = store_inv s"
  "store_inv (fst (startRecording_start s)) = store_inv s"
  "store_inv (fst (startRecording_closed r s)) = store_inv s"
  "store_inv (fst (startRecording_media r env s)) = store_inv s"
  "store_inv (startRecording_fallback r env s) = store_inv s"
  "store_inv (fst (toggleRecording s)) = store_inv s"
  "store_inv (fst (mediaRecorder_onstop s)) = store_inv s"
  by (simp_all add: startRecording_request_def startRecording_start_def startRecording_closed_def
        startRecording_media_def startRecording_fallback_def toggleRecording_def
        mediaRecorder_onstop_def processAudio_start_def Let_def split: outcome.splits)

lemma startRecording_segments_notes [simp]:
  "notes_arr (fst (startRecording_request s)) = notes_arr s"
  "notes_arr (fst (startRecording_start s)) = notes_arr s"
  "notes_arr (fst (startRecording_closed r s)) = notes_arr s"
  "notes_arr (fst (startRecording_media r env s)) = notes_arr s"
  "notes_arr (startRecording_fallback r env s) = notes_arr s"
  "notes_arr (fst (toggleRecording s)) = notes_arr s"
  "notes_arr (fst (mediaRecorder_onstop s)) = notes_arr s"
  by (simp_all add: startRecording_request_def startRecording_start_def startRecording_closed_def
        startRecording_media_def startRecording_fallback_def toggleRecording_def
        mediaRecorder_onstop_def processAudio_start_def Let_def split: outcome.splits)












section \<open>Two takes on one note: auxiliary facts\<close>

lemma run_append: "run (xs @ ys) s = run ys (run xs s)"
  by (induction xs arbitrary: s) simp_all

lemma data_url_pieces:
  "split 44 (js ''data:audio/webm;base64,AAAA'')
        = [js ''data:audio/webm;base64'', js ''AAAA'']"
  by (simp add: js_def)

lemma captured:
  "run [ToggleRecording, DataAvailable clip, RecorderStopped,
        FileRead clip (ReadOk (js ''data:audio/webm;base64,AAAA''))] recording_app
   = example_app
     \<lparr>recordingStatus := js ''Getting transcription...'',
      mediaRecorder := Some \<lparr>recorder_stream = 0, mimeType = js ''audio/webm''\<rparr>,
      audioChunks := [clip], nextStream := 1,
      media_log := [Acquired 0, Stopped 0],
      requests := [transcription_contents (js ''AAAA'') (js ''audio/webm'')]\<rparr>"
proof -
  have ne: "js ''AAAA'' \<noteq> []" "js ''audio/webm'' \<noteq> []" by (simp_all add: js_def)
  show ?thesis
    by (simp add: recording_app_eq example_app_eq toggleRecording_def
       stop_stream_def stop_tracks_def Let_def
       stopRecording_def mediaRecorder_ondataavailable_def mediaRecorder_onstop_def
       stopLiveDisplay_def processAudio_start_def processAudio_resume_def clip_def
       or_else_def data_url_pieces ne getTranscription_start_def)
qed


lemma blank_trims:
  "trim (js ''hello'') = js ''hello''" "trim (js '' '') = []" "js ''hello'' \<noteq> []"
  "js '' '' \<noteq> []" "trim (js ''Untitled Note'') = js ''Untitled Note''"
  "js ''Untitled Note'' \<noteq> []"
  by (simp_all add: trim_def js_def is_space_def)

lemma blank_title: "derive_title (js '' '') = None"
  by (simp add: derive_title_def title_lines_def js_def newline_def trim_def is_space_def
        startsWith_def hash_def)

lemma first_take_eq:
  "first_take = example_app
     \<lparr>heap := (heap example_app)(0 := \<lparr>note_id = js ''note_1'', title = js ''Untitled Note'',
                 rawTranscription = js ''hello'', polishedNote = js '' '', timestamp = 1\<rparr>),
      notes_arr := [0],
      recordingStatus := js ''Note polished. Ready for next recording.'',
      rawTranscription_text := js ''hello'',
      polishedNote_html := Marked (js '' ''),
      mediaRecorder := Some \<lparr>recorder_stream = 0, mimeType = js ''audio/webm''\<rparr>,
      audioChunks := [clip], nextStream := 1,
      media_log := [Acquired 0, Stopped 0],
      requests := [transcription_contents (js ''AAAA'') (js ''audio/webm''),
                   polish_contents (js ''hello'')],
      voiceNotes := Some [\<lparr>note_id = js ''note_1'', title = js ''Untitled Note'',
                 rawTranscription = js ''hello'', polishedNote = js '' '', timestamp = 1\<rparr>]\<rparr>"
proof -
  have r: "run [ToggleRecording, UserMedia (Fulfilled ()) working_env] example_app = recording_app"
    by (simp add: recording_app_def)
  have "first_take = run [Transcribed (Resolved (Some (js ''hello''))), Polished (Resolved (Some (js '' '')))]
          (run [ToggleRecording, DataAvailable clip, RecorderStopped,
        FileRead clip (ReadOk (js ''data:audio/webm;base64,AAAA''))] recording_app)"
    unfolding first_take_def take_events_def recording_app_def by simp
  then show ?thesis
    unfolding captured
    by (simp add: example_app_eq getTranscription_resume_def
       getPolishedNote_start_def getPolishedNote_resume_def blank_trims blank_title
       derived_editorTitle_def Let_def or_else_def
       saveOrUpdateCurrentNote_def saveNotesToLocalStorage_def)
qed


lemma second_recording:
  "run [ToggleRecording, UserMedia (Fulfilled ()) working_env] first_take
   = first_take
     \<lparr>recordingStatus := js ''Requesting microphone access...'',
      mediaRecorder := Some \<lparr>recorder_stream = 1, mimeType = js ''audio/webm''\<rparr>,
      audioChunks := [], isRecording := True, stream := Some 1, audioContext := True,
      nextStream := 2, media_log := [Acquired 0, Stopped 0, Acquired 1]\<rparr>"
  by (simp add: first_take_eq example_app_eq toggleRecording_def startRecording_start_def
       startRecording_request_def startRecording_media_def startRecording_acquired_def
       startLiveDisplay_def stop_stream_def working_env_def Let_def)

lemma second_captured:
  "run [ToggleRecording, DataAvailable clip, RecorderStopped,
        FileRead clip (ReadOk (js ''data:audio/webm;base64,AAAA''))]
     (run [ToggleRecording, UserMedia (Fulfilled ()) working_env] first_take)
   = first_take
     \<lparr>recordingStatus := js ''Getting transcription...'',
      mediaRecorder := Some \<lparr>recorder_stream = 1, mimeType = js ''audio/webm''\<rparr>,
      nextStream := 2, media_log := [Acquired 0, Stopped 0, Acquired 1, Stopped 1],
      requests := [transcription_contents (js ''AAAA'') (js ''audio/webm''),
                   polish_contents (js ''hello''),
                   transcription_contents (js ''AAAA'') (js ''audio/webm'')]\<rparr>"
proof -
  have ne: "js ''AAAA'' \<noteq> []" "js ''audio/webm'' \<noteq> []" by (simp_all add: js_def)
  show ?thesis
    unfolding second_recording
    by (simp add: first_take_eq example_app_eq toggleRecording_def
       stop_stream_def stop_tracks_def Let_def
       stopRecording_def mediaRecorder_ondataavailable_def mediaRecorder_onstop_def
       stopLiveDisplay_def processAudio_start_def processAudio_resume_def clip_def
       or_else_def data_url_pieces ne getTranscription_start_def)
qed

section \<open>Title derivation\<close>

text \<open>
  C2, as amended. For every polished text, with its lines split at line feeds and
  trimmed:

  (a) if some line begins with \<open>#\<close>, the first such line gives the title, and the title
  is not empty; when the run of \<open>#\<close> is followed by white space, the title is the rest
  of the line after that run and that white space;

  (b) if no line begins with \<open>#\<close>, the title comes from the first non-empty line whose
  candidate (the line without its leading run of \<open>* _ ` # - > [ ] ( ) .\<close>, digits and
  white space, trimmed) is more than 3 code units long: the candidate itself when it
  is at most 60 long, its first 60 code units followed by \<open>...\<close> otherwise. Lines with a
  shorter candidate are passed over; the search does not stop at them;

  (c) if there is no such line either, no title is written.

  Writing the title is idempotent: doing it twice with the same text gives the editor
  title that doing it once gives.
\<close>

theorem derive_title_rules:
  "(\<forall>l. find (\<lambda>l. startsWith l [hash]) (title_lines p) = Some l \<longrightarrow>
        derive_title p = Some (trim (replace_heading_marker l))
        \<and> trim (replace_heading_marker l) \<noteq> []
        \<and> (takeWhile is_space (dropWhile (\<lambda>c. c = hash) l) \<noteq> [] \<longrightarrow>
             derive_title p = Some (dropWhile is_space (dropWhile (\<lambda>c. c = hash) l))))
   \<and> (find (\<lambda>l. startsWith l [hash]) (title_lines p) = None \<longrightarrow>
        derive_title p =
          (case find (\<lambda>l. l \<noteq> [] \<and> length (trim (replace_leading_markup l)) > 3)
                  (title_lines p) of
             None \<Rightarrow> None
           | Some l \<Rightarrow> Some (if length (trim (replace_leading_markup l)) > 60
                            then take 60 (trim (replace_leading_markup l)) @ js ''...''
                            else trim (replace_leading_markup l))))
   \<and> derived_editorTitle p (derived_editorTitle p t) = derived_editorTitle p t"
proof -
  let ?ls = "title_lines p"
  have hl: "heading_loop ?ls =
      map_option (\<lambda>l. trim (replace_heading_marker l)) (find (\<lambda>l. startsWith l [hash]) ?ls)"
    by (rule heading_loop_find) (rule title_lines_trimmed)
  have a: "derive_title p = Some (trim (replace_heading_marker l))
        \<and> trim (replace_heading_marker l) \<noteq> []
        \<and> (takeWhile is_space (dropWhile (\<lambda>c. c = hash) l) \<noteq> [] \<longrightarrow>
             derive_title p = Some (dropWhile is_space (dropWhile (\<lambda>c. c = hash) l)))"
    if f: "find (\<lambda>l. startsWith l [hash]) ?ls = Some l" for l
  proof -
    from f have "l \<in> set ?ls" "startsWith l [hash]"
      by (auto simp: find_Some_iff)
    then have tl: "trim l = l" and st: "startsWith l [hash]"
      using title_lines_trimmed by auto
    have d: "derive_title p = Some (trim (replace_heading_marker l))"
      by (simp add: derive_title_def Let_def hl f)
    show ?thesis
      using d heading_title_nonempty[OF tl st] by simp
  qed
  have b: "derive_title p =
          (case find (\<lambda>l. l \<noteq> [] \<and> length (trim (replace_leading_markup l)) > 3) ?ls of
             None \<Rightarrow> None
           | Some l \<Rightarrow> Some (if length (trim (replace_leading_markup l)) > 60
                            then take 60 (trim (replace_leading_markup l)) @ js ''...''
                            else trim (replace_leading_markup l)))"
    if f: "find (\<lambda>l. startsWith l [hash]) ?ls = None"
    by (simp add: derive_title_def Let_def hl f fallback_loop_find maxLength_def
             split: option.splits)
  have c: "derived_editorTitle p (derived_editorTitle p t) = derived_editorTitle p t"
    by (simp add: derived_editorTitle_def split: option.splits)
  show ?thesis using a b c by blast
qed

text \<open>
  The three rules at work: \<open># Greeting\<close> gives \<open>Greeting\<close>; after a rule \<open>---\<close> the next
  line gives the title; a long list item is cut to 60 code units and \<open>...\<close>.
\<close>

theorem derive_title_rules_witness:
  "find (\<lambda>l. startsWith l [hash]) (title_lines greeting_text) = Some (js ''# Greeting'')
   \<and> takeWhile is_space (dropWhile (\<lambda>c. c = hash) (js ''# Greeting'')) \<noteq> []
   \<and> derive_title greeting_text = Some (js ''Greeting'')
   \<and> find (\<lambda>l. startsWith l [hash]) (title_lines ruled_text) = None
   \<and> derive_title ruled_text = Some (js ''Meeting notes'')
   \<and> find (\<lambda>l. startsWith l [hash]) (title_lines long_text) = None
   \<and> derive_title long_text
       = Some (js ''This sentence is the first line of a note and it is far too ...'')"
proof -
  have h1: "find (\<lambda>l. startsWith l [hash]) (title_lines greeting_text) = Some (js ''# Greeting'')"
    by (simp add: greeting_lines startsWith_def hash_def js_def)
  have w1: "takeWhile is_space (dropWhile (\<lambda>c. c = hash) (js ''# Greeting'')) \<noteq> []"
    by (simp add: hash_def js_def is_space_def)
  have h2: "find (\<lambda>l. startsWith l [hash]) (title_lines ruled_text) = None"
    by (simp add: ruled_lines startsWith_def hash_def js_def)
  have h3: "find (\<lambda>l. startsWith l [hash]) (title_lines long_text) = None"
    unfolding long_lines by (simp add: long_text_def startsWith_def hash_def js_def)
  have c3: "trim (replace_leading_markup long_text)
     = js ''This sentence is the first line of a note and it is far too long for a title''"
    by (simp add: replace_leading_markup_def is_title_markup_def long_text_def js_def
          is_space_def is_digit_def trim_def)
  have "derive_title greeting_text
          = Some (dropWhile is_space (dropWhile (\<lambda>c. c = hash) (js ''# Greeting'')))"
    using derive_title_rules[of greeting_text] h1 w1 by blast
  then have t1: "derive_title greeting_text = Some (js ''Greeting'')"
    by (simp add: hash_def js_def is_space_def)
  have t2: "derive_title ruled_text = Some (js ''Meeting notes'')"
    using derive_title_rules[of ruled_text] h2
    by (simp add: ruled_lines ruled_candidates) (simp add: js_def)
  have t3: "derive_title long_text
       = Some (js ''This sentence is the first line of a note and it is far too ...'')"
    using derive_title_rules[of long_text] h3
    by (simp add: long_lines c3) (simp add: js_def long_text_def)
  show ?thesis using h1 w1 h2 h3 t1 t2 t3 by simp
qed

text \<open>
  C2 as it is stated fails: it takes the first non-empty line as the only candidate of
  rule (b). In \<open>---\<close>, line feed, \<open>Meeting notes\<close> the first non-empty line is the rule,
  whose candidate is empty, so the stated rules give no title; the code goes on to the
  second line.
\<close>

theorem first_nonempty_line_counterexample:
  "derive_title ruled_text = Some (js ''Meeting notes'') \<and> spec_title ruled_text = None"
proof -
  have "derive_title ruled_text = Some (js ''Meeting notes'')"
    by (simp add: derive_title_def ruled_lines startsWith_def hash_def ruled_candidates)
       (simp add: js_def maxLength_def)
  moreover have "spec_title ruled_text = None"
    by (simp add: spec_title_def ruled_lines startsWith_def hash_def ruled_candidates)
       (simp add: js_def)
  ultimately show ?thesis by simp
qed

section \<open>Saving the current note\<close>

text \<open>
  C10. When the current note has neither transcription nor polished text (after
  trimming), \<open>saveOrUpdateCurrentNote\<close> still changes the note: its title becomes the
  trimmed text of the editor title, or \<open>Untitled Note\<close> when that is empty. Nothing else
  changes; the store in particular is left alone.
\<close>

theorem save_writes_title_first:
  assumes "currentNote s = Some cur"
    and "trim (rawTranscription (heap s cur)) = []"
    and "trim (polishedNote (heap s cur)) = []"
  shows "saveOrUpdateCurrentNote s =
           s\<lparr>heap := (heap s)(cur := (heap s cur)
                \<lparr>title := (if trim (editorTitle s) = [] then js ''Untitled Note''
                            else trim (editorTitle s))\<rparr>)\<rparr>"
  using assms by (simp add: save_unfold has_content_def or_else_def)

text \<open>
  A draft without content whose editor title reads \<open>Memo\<close> between blanks: after the
  call the note is titled \<open>Memo\<close>, and the store is still empty.
\<close>

theorem save_writes_title_first_witness:
  "currentNote titled_draft = Some 0
   \<and> trim (rawTranscription (heap titled_draft 0)) = []
   \<and> trim (polishedNote (heap titled_draft 0)) = []
   \<and> title (heap titled_draft 0) = []
   \<and> title (heap (saveOrUpdateCurrentNote titled_draft) 0) = js ''Memo''
   \<and> notes_arr (saveOrUpdateCurrentNote titled_draft) = []"
proof -
  have h: "currentNote titled_draft = Some 0"
    "trim (rawTranscription (heap titled_draft 0)) = []"
    "trim (polishedNote (heap titled_draft 0)) = []"
    by (simp_all add: titled_draft_simps)
  have t: "trim (js '' Memo '') = js ''Memo''"
    by (simp add: trim_def js_def is_space_def)
  show ?thesis
    using h save_writes_title_first[OF h]
    by (simp add: titled_draft_simps t) (simp add: js_def)
qed

text \<open>
  C9, as amended. For a current note that has a transcription or a polished text
  (after trimming), \<open>saveOrUpdateCurrentNote\<close> writes the title into the current note
  and leaves every other note object as it was. If no note of the store has the id of
  the current note, the current note is put in front of the store. If one has, the
  first such element is replaced by the current note at its index: the length of the
  store and the positions of all notes stay the same, nothing moves to the front.
\<close>

theorem save_upsert:
  assumes cur: "currentNote s = Some cur"
    and content: "trim (rawTranscription (heap s cur)) \<noteq> [] \<or> trim (polishedNote (heap s cur)) \<noteq> []"
  shows "heap (saveOrUpdateCurrentNote s) =
           (heap s)(cur := (heap s cur)
              \<lparr>title := or_else (Some (trim (editorTitle s))) (js ''Untitled Note'')\<rparr>)
       \<and> ((\<forall>r\<in>set (notes_arr s). note_id (heap s r) \<noteq> note_id (heap s cur))
            \<longrightarrow> notes_arr (saveOrUpdateCurrentNote s) = cur # notes_arr s)
       \<and> (\<forall>i<length (notes_arr s).
             note_id (heap s (notes_arr s ! i)) = note_id (heap s cur)
             \<and> (\<forall>j<i. note_id (heap s (notes_arr s ! j)) \<noteq> note_id (heap s cur))
            \<longrightarrow> notes_arr (saveOrUpdateCurrentNote s) = (notes_arr s)[i := cur])"
proof -
  let ?P = "\<lambda>n. note_id (heap s n) = note_id (heap s cur)"
  note unf = save_unfold[OF cur]
  have ne: "has_content (heap s cur)"
    using content by (simp add: has_content_def)
  have h: "heap (saveOrUpdateCurrentNote s) = (heap s)(cur := (heap s cur)
              \<lparr>title := or_else (Some (trim (editorTitle s))) (js ''Untitled Note'')\<rparr>)"
    unfolding unf using ne by (auto simp: saveNotesToLocalStorage_def)
  have ins: "notes_arr (saveOrUpdateCurrentNote s) = cur # notes_arr s"
    if "\<forall>r\<in>set (notes_arr s). note_id (heap s r) \<noteq> note_id (heap s cur)"
  proof -
    from that have "\<not> findIndex ?P (notes_arr s) > - 1"
      unfolding findIndex_gt by blast
    then show ?thesis unfolding unf using ne by (auto simp: saveNotesToLocalStorage_def)
  qed
  have rep: "notes_arr (saveOrUpdateCurrentNote s) = (notes_arr s)[i := cur]"
    if "i < length (notes_arr s)" "note_id (heap s (notes_arr s ! i)) = note_id (heap s cur)"
       "\<forall>j<i. note_id (heap s (notes_arr s ! j)) \<noteq> note_id (heap s cur)" for i
  proof -
    have "findIndex ?P (notes_arr s) = int i"
      using that by (intro findIndex_eq) auto
    then show ?thesis unfolding unf using ne by (auto simp: saveNotesToLocalStorage_def)
  qed
  show ?thesis using h ins rep by blast
qed

text \<open>
  Both branches: the second of two stored notes is selected, renamed and saved, and
  the store is still in the order first, second; a draft with a new id and a
  transcription is saved, and is put in front of the two.
\<close>

theorem save_upsert_witness:
  "currentNote renamed_b = Some 1
   \<and> trim (rawTranscription (heap renamed_b 1)) \<noteq> []
   \<and> note_id (heap renamed_b (notes_arr renamed_b ! 1)) = note_id (heap renamed_b 1)
   \<and> note_id (heap renamed_b (notes_arr renamed_b ! 0)) \<noteq> note_id (heap renamed_b 1)
   \<and> notes_arr (saveOrUpdateCurrentNote renamed_b) = [0, 1]
   \<and> title (heap (saveOrUpdateCurrentNote renamed_b) 1) = js ''B2''
   \<and> heap (saveOrUpdateCurrentNote renamed_b) 0 = note_a
   \<and> currentNote transcribed_draft = Some 2
   \<and> trim (rawTranscription (heap transcribed_draft 2)) \<noteq> []
   \<and> note_id (heap transcribed_draft 0) \<noteq> note_id (heap transcribed_draft 2)
   \<and> note_id (heap transcribed_draft 1) \<noteq> note_id (heap transcribed_draft 2)
   \<and> notes_arr (saveOrUpdateCurrentNote transcribed_draft) = [2, 0, 1]"
proof -
  have tb: "trim (js ''beta'') = js ''beta''" "trim (js ''hello'') = js ''hello''"
    "trim (js ''B2'') = js ''B2''"
    by (simp_all add: trim_def js_def is_space_def)
  have ne: "js ''beta'' \<noteq> []" "js ''hello'' \<noteq> []" "js ''B2'' \<noteq> []"
    "js ''note_1'' \<noteq> js ''note_2''" "js ''note_1'' \<noteq> js ''note_3''"
    "js ''note_2'' \<noteq> js ''note_3''"
    by (simp_all add: js_def)
  have c1: "currentNote renamed_b = Some 1"
    and k1: "trim (rawTranscription (heap renamed_b 1)) \<noteq> []"
    by (simp_all add: renamed_b_simps note_b_def tb ne)
  have i1: "note_id (heap renamed_b (notes_arr renamed_b ! 1)) = note_id (heap renamed_b 1)"
    and j1: "note_id (heap renamed_b (notes_arr renamed_b ! 0)) \<noteq> note_id (heap renamed_b 1)"
    by (simp_all add: renamed_b_simps note_a_def note_b_def ne)
  have c2: "currentNote transcribed_draft = Some 2"
    and k2: "trim (rawTranscription (heap transcribed_draft 2)) \<noteq> []"
    and n0: "note_id (heap transcribed_draft 0) \<noteq> note_id (heap transcribed_draft 2)"
    and n1: "note_id (heap transcribed_draft 1) \<noteq> note_id (heap transcribed_draft 2)"
    by (simp_all add: transcribed_draft_simps note_a_def note_b_def tb ne)
  note u1 = save_upsert[of renamed_b 1, OF c1 disjI1[OF k1]]
  note u2 = save_upsert[of transcribed_draft 2, OF c2 disjI1[OF k2]]
  have L: "1 < length (notes_arr renamed_b)"
    by (simp add: renamed_b_simps)
  have J: "\<forall>j<1. note_id (heap renamed_b (notes_arr renamed_b ! j)) \<noteq> note_id (heap renamed_b 1)"
    using j1 by simp
  from u1 L i1 J
  have r1: "notes_arr (saveOrUpdateCurrentNote renamed_b) = (notes_arr renamed_b)[1 := 1]"
    by blast
  from u1 have h1: "heap (saveOrUpdateCurrentNote renamed_b) =
           (heap renamed_b)(1 := (heap renamed_b 1)
              \<lparr>title := or_else (Some (trim (editorTitle renamed_b))) (js ''Untitled Note'')\<rparr>)"
    by blast
  have N: "\<forall>r\<in>set (notes_arr transcribed_draft).
             note_id (heap transcribed_draft r) \<noteq> note_id (heap transcribed_draft 2)"
    using n0 n1 by (simp add: transcribed_draft_simps)
  from u2 N
  have r2: "notes_arr (saveOrUpdateCurrentNote transcribed_draft) = 2 # notes_arr transcribed_draft"
    by blast
  show ?thesis
    using c1 k1 i1 j1 c2 k2 n0 n1 r1 r2
    by (simp add: h1 renamed_b_simps transcribed_draft_simps or_else_def tb ne)
qed

text \<open>
  C9 as it is stated fails: the updated note is not moved to the front. The second
  stored note is selected, renamed and saved; the new title is in the store, and the
  note is still the second element.
\<close>

theorem upsert_keeps_position_counterexample:
  "currentNote renamed_b = Some 1
   \<and> notes_arr renamed_b = [0, 1]
   \<and> title (heap renamed_b 1) = js ''B''
   \<and> title (heap (saveOrUpdateCurrentNote renamed_b) 1) = js ''B2''
   \<and> notes_arr (saveOrUpdateCurrentNote renamed_b) = [0, 1]
   \<and> hd (notes_arr (saveOrUpdateCurrentNote renamed_b)) \<noteq> 1"
proof -
  have tb: "trim (js ''beta'') = js ''beta''" "trim (js ''B2'') = js ''B2''"
    by (simp_all add: trim_def js_def is_space_def)
  have ne: "js ''beta'' \<noteq> []" "js ''B2'' \<noteq> []" "js ''note_1'' \<noteq> js ''note_2''"
    by (simp_all add: js_def)
  show ?thesis
    by (simp add: save_unfold[of renamed_b 1] renamed_b_simps has_content_def note_a_def
          note_b_def tb ne or_else_def saveNotesToLocalStorage_def)
qed

section \<open>Upload, capture and the two stages\<close>

text \<open>
  C5. An upload whose first file is larger than 50 MB (50 * 1024 * 1024 bytes) is
  rejected at once: the handler returns without waiting for anything, and the only
  changes are the status text \<open>File is too large (max 50MB).\<close> and the cleared file
  input. No note is created, nothing is read, no request is sent.
\<close>

theorem upload_rejects_oversized:
  assumes "file_size file > 50 * 1024 * 1024"
  shows "handleFileUpload_start (file # files) now1 now2 s =
           (s\<lparr>recordingStatus := js ''File is too large (max 50MB).'', audioUpload_value := []\<rparr>, None)
       \<and> handleFileUpload (file # files) now1 now2 rd resp1 resp2 s =
           s\<lparr>recordingStatus := js ''File is too large (max 50MB).'', audioUpload_value := []\<rparr>"
proof -
  have d: "decimal maxSizeInMB = js ''50''"
    by (simp add: maxSizeInMB_def decimal.simps[of 50] decimal.simps[of 5] js_def)
  have "handleFileUpload_start (file # files) now1 now2 s =
           (s\<lparr>recordingStatus := js ''File is too large (max 50MB).'', audioUpload_value := []\<rparr>, None)"
    using assms unfolding handleFileUpload_start_def d
    by (simp add: maxSizeInMB_def js_def)
  then show ?thesis by (simp add: handleFileUpload_def)
qed

text \<open>A file of 60 MB, with a reader and a service that would have answered.\<close>

theorem upload_rejects_oversized_witness:
  "file_size big_file > 50 * 1024 * 1024
   \<and> recordingStatus (handleFileUpload [big_file] 2 2 (ReadOk (js ''data:audio/mpeg;base64,AAAA''))
         (Resolved (Some (js ''hello''))) (Resolved (Some (js ''# Hello''))) example_app)
       = js ''File is too large (max 50MB).''
   \<and> requests (handleFileUpload [big_file] 2 2 (ReadOk (js ''data:audio/mpeg;base64,AAAA''))
         (Resolved (Some (js ''hello''))) (Resolved (Some (js ''# Hello''))) example_app) = []
   \<and> currentNote (handleFileUpload [big_file] 2 2 (ReadOk (js ''data:audio/mpeg;base64,AAAA''))
         (Resolved (Some (js ''hello''))) (Resolved (Some (js ''# Hello''))) example_app) = Some 0
   \<and> nextRef (handleFileUpload [big_file] 2 2 (ReadOk (js ''data:audio/mpeg;base64,AAAA''))
         (Resolved (Some (js ''hello''))) (Resolved (Some (js ''# Hello''))) example_app) = 1
   \<and> notes_arr (handleFileUpload [big_file] 2 2 (ReadOk (js ''data:audio/mpeg;base64,AAAA''))
         (Resolved (Some (js ''hello''))) (Resolved (Some (js ''# Hello''))) example_app) = []"
proof -
  have h: "file_size big_file > 50 * 1024 * 1024" by (simp add: big_file_def)
  show ?thesis
    using h upload_rejects_oversized[OF h, of "[]" 2 2 example_app "ReadOk (js ''data:audio/mpeg;base64,AAAA'')"
      "Resolved (Some (js ''hello''))" "Resolved (Some (js ''# Hello''))"]
    by (simp add: example_app_eq)
qed

text \<open>
  C8. When a recording ends with nothing buffered (the buffer was empty and every
  \<open>dataavailable\<close> event since carried no bytes), stopping it gives the status
  \<open>No audio data captured. Please try again.\<close>, which is not the message for a refused
  microphone; no blob is handed to the pipeline, no request is sent, and the notes
  and the store are untouched.
\<close>

theorem empty_capture_try_again:
  assumes "audioChunks s = []" and "\<forall>d\<in>set datas. blob_size d = 0"
  shows "stop_and_process rd resp1 resp2 (fold mediaRecorder_ondataavailable datas s)
           = fst (mediaRecorder_onstop (stopRecording s))
       \<and> snd (mediaRecorder_onstop (stopRecording s)) = None
       \<and> recordingStatus (fst (mediaRecorder_onstop (stopRecording s)))
           = js ''No audio data captured. Please try again.''
       \<and> recordingStatus (fst (mediaRecorder_onstop (stopRecording s)))
           \<noteq> js ''Microphone permission denied. Please check browser settings.''
       \<and> requests (fst (mediaRecorder_onstop (stopRecording s))) = requests s
       \<and> heap (fst (mediaRecorder_onstop (stopRecording s))) = heap s
       \<and> notes_arr (fst (mediaRecorder_onstop (stopRecording s))) = notes_arr s"
proof -
  have c: "audioChunks (stopRecording s) = []"
    using assms(1) by (simp add: stopRecording_def stopLiveDisplay_def)
  have r: "requests (stopRecording s) = requests s" "heap (stopRecording s) = heap s"
    "notes_arr (stopRecording s) = notes_arr s"
    by (simp_all add: stopRecording_def stopLiveDisplay_def)
  have m: "js ''No audio data captured. Please try again.''
           \<noteq> js ''Microphone permission denied. Please check browser settings.''"
    by (simp add: js_def)
  show ?thesis
    using c r m
    by (simp add: stop_and_process_def ondata_empty[OF assms(2)] mediaRecorder_onstop_def
        stopLiveDisplay_def stop_stream_def stop_tracks_def Let_def split: option.splits)
qed

text \<open>A recording that is stopped after one \<open>dataavailable\<close> event without data.\<close>

theorem empty_capture_try_again_witness:
  "audioChunks recording_app = []
   \<and> blob_size silent_chunk = 0
   \<and> isRecording recording_app
   \<and> stream recording_app = Some 0
   \<and> recordingStatus (stop_and_process (ReadOk (js ''data:audio/webm;base64,AAAA''))
        (Resolved (Some (js ''hello''))) (Resolved (Some (js ''# Hello'')))
        (fold mediaRecorder_ondataavailable [silent_chunk] recording_app))
       = js ''No audio data captured. Please try again.''
   \<and> requests (stop_and_process (ReadOk (js ''data:audio/webm;base64,AAAA''))
        (Resolved (Some (js ''hello''))) (Resolved (Some (js ''# Hello'')))
        (fold mediaRecorder_ondataavailable [silent_chunk] recording_app)) = []
   \<and> notes_arr (stop_and_process (ReadOk (js ''data:audio/webm;base64,AAAA''))
        (Resolved (Some (js ''hello''))) (Resolved (Some (js ''# Hello'')))
        (fold mediaRecorder_ondataavailable [silent_chunk] recording_app)) = []"
proof -
  have h1: "audioChunks recording_app = []" by (simp add: recording_app_eq example_app_eq)
  have h2: "\<forall>d\<in>set [silent_chunk]. blob_size d = 0" by (simp add: silent_chunk_def)
  have e: "requests recording_app = []" "notes_arr recording_app = []"
    "isRecording recording_app" "stream recording_app = Some 0"
    by (simp_all add: recording_app_eq example_app_eq)
  from empty_capture_try_again[OF h1 h2, of "ReadOk (js ''data:audio/webm;base64,AAAA'')"
      "Resolved (Some (js ''hello''))" "Resolved (Some (js ''# Hello''))"]
  show ?thesis using h1 e by (simp add: silent_chunk_def)
qed

text \<open>
  C3. When the transcription request fails or gives no text (\<open>text\<close> undefined or
  empty), \<open>getTranscription\<close> ends there with a status that reports it: the only
  request that was sent is the transcription request, so polishing is never asked
  for; no note object is changed, so fields that were empty stay empty; and the store
  is unchanged.
\<close>

theorem transcription_failure_halts:
  assumes "resp = Rejected \<or> resp = Resolved None \<or> resp = Resolved (Some [])"
  shows "getTranscription base64Audio mimeType' resp resp2 s =
           s\<lparr>recordingStatus :=
                (if resp = Rejected then js ''Error getting transcription. Please try again.''
                 else js ''Transcription failed or returned empty.''),
             requests := requests s @ [transcription_contents base64Audio mimeType']\<rparr>
       \<and> getTranscription_resume resp s =
           (s\<lparr>recordingStatus :=
                (if resp = Rejected then js ''Error getting transcription. Please try again.''
                 else js ''Transcription failed or returned empty.'')\<rparr>, False)"
  using assms
  by (auto simp: getTranscription_def getTranscription_resume_def getTranscription_start_def)

text \<open>An empty transcription for the draft of the fresh application.\<close>

theorem transcription_failure_halts_witness:
  "recordingStatus (getTranscription (js ''AAAA'') (js ''audio/webm'') (Resolved (Some []))
       (Resolved (Some (js ''# Hello''))) example_app)
     = js ''Transcription failed or returned empty.''
   \<and> requests (getTranscription (js ''AAAA'') (js ''audio/webm'') (Resolved (Some []))
       (Resolved (Some (js ''# Hello''))) example_app)
     = [transcription_contents (js ''AAAA'') (js ''audio/webm'')]
   \<and> rawTranscription (heap (getTranscription (js ''AAAA'') (js ''audio/webm'') (Resolved (Some []))
       (Resolved (Some (js ''# Hello''))) example_app) 0) = []
   \<and> polishedNote (heap (getTranscription (js ''AAAA'') (js ''audio/webm'') (Resolved (Some []))
       (Resolved (Some (js ''# Hello''))) example_app) 0) = []
   \<and> notes_arr (getTranscription (js ''AAAA'') (js ''audio/webm'') (Resolved (Some []))
       (Resolved (Some (js ''# Hello''))) example_app) = []"
  using transcription_failure_halts[of "Resolved (Some [])" "js ''AAAA''" "js ''audio/webm''"
          "Resolved (Some (js ''# Hello''))" example_app]
  by (simp add: example_app_eq)

text \<open>
  C4. When the polishing request fails or gives no text, the continuation of
  \<open>getPolishedNote\<close> changes nothing but the status, which reports the failure. So in
  a run of \<open>getTranscription\<close> with a transcription that is not blank, the current note
  keeps the transcription that the first stage stored, the transcription stays on
  display, the polished text of the note is what it was, the store is unchanged, and
  nothing is pending.
\<close>

theorem polishing_failure_keeps_transcription:
  assumes "resp = Rejected \<or> resp = Resolved None \<or> resp = Resolved (Some [])"
  shows "getPolishedNote_resume resp s =
           s\<lparr>recordingStatus :=
                (if resp = Rejected then js ''Error polishing note. Please try again.''
                 else js ''Polishing failed or returned empty.'')\<rparr>
       \<and> (trim t \<noteq> [] \<and> currentNote s = Some cur \<longrightarrow>
            getTranscription base64Audio mimeType' (Resolved (Some t)) resp s =
              s\<lparr>heap := (heap s)(cur := (heap s cur)\<lparr>rawTranscription := t\<rparr>),
                rawTranscription_text := t,
                recordingStatus :=
                  (if resp = Rejected then js ''Error polishing note. Please try again.''
                   else js ''Polishing failed or returned empty.''),
                requests := requests s @ [transcription_contents base64Audio mimeType',
                                          polish_contents t]\<rparr>)"
proof -
  have a: "getPolishedNote_resume resp s =
           s\<lparr>recordingStatus :=
                (if resp = Rejected then js ''Error polishing note. Please try again.''
                 else js ''Polishing failed or returned empty.'')\<rparr>" for s
    using assms by (auto simp: getPolishedNote_resume_def)
  have b: "getTranscription base64Audio mimeType' (Resolved (Some t)) resp s =
              s\<lparr>heap := (heap s)(cur := (heap s cur)\<lparr>rawTranscription := t\<rparr>),
                rawTranscription_text := t,
                recordingStatus :=
                  (if resp = Rejected then js ''Error polishing note. Please try again.''
                   else js ''Polishing failed or returned empty.''),
                requests := requests s @ [transcription_contents base64Audio mimeType',
                                          polish_contents t]\<rparr>"
    if "trim t \<noteq> []" "currentNote s = Some cur"
  proof -
    have "t \<noteq> []" using that(1) by auto
    then show ?thesis using that
      by (simp add: getTranscription_def getTranscription_resume_def getTranscription_start_def
        getPolishedNote_start_def a Let_def)
  qed
  show ?thesis using a b by blast
qed

text \<open>The draft of the fresh application: transcription \<open>hello\<close>, then no polished text.\<close>

theorem polishing_failure_keeps_transcription_witness:
  "trim (js ''hello'') \<noteq> []
   \<and> currentNote example_app = Some 0
   \<and> rawTranscription (heap (getTranscription (js ''AAAA'') (js ''audio/webm'')
        (Resolved (Some (js ''hello''))) (Resolved None) example_app) 0) = js ''hello''
   \<and> polishedNote (heap (getTranscription (js ''AAAA'') (js ''audio/webm'')
        (Resolved (Some (js ''hello''))) (Resolved None) example_app) 0) = []
   \<and> rawTranscription_text (getTranscription (js ''AAAA'') (js ''audio/webm'')
        (Resolved (Some (js ''hello''))) (Resolved None) example_app) = js ''hello''
   \<and> recordingStatus (getTranscription (js ''AAAA'') (js ''audio/webm'')
        (Resolved (Some (js ''hello''))) (Resolved None) example_app)
       = js ''Polishing failed or returned empty.''
   \<and> notes_arr (getTranscription (js ''AAAA'') (js ''audio/webm'')
        (Resolved (Some (js ''hello''))) (Resolved None) example_app) = []"
proof -
  have h: "trim (js ''hello'') \<noteq> []" by (simp add: trim_def js_def is_space_def)
  have c: "currentNote example_app = Some 0" by (simp add: example_app_eq)
  from polishing_failure_keeps_transcription[of "Resolved None" example_app "js ''hello''" 0 "js ''AAAA''" "js ''audio/webm''"]
  have "getTranscription (js ''AAAA'') (js ''audio/webm'') (Resolved (Some (js ''hello'')))
          (Resolved None) example_app =
        example_app\<lparr>heap := (heap example_app)(0 := (heap example_app 0)\<lparr>rawTranscription := js ''hello''\<rparr>),
                rawTranscription_text := js ''hello'',
                recordingStatus := js ''Polishing failed or returned empty.'',
                requests := requests example_app @ [transcription_contents (js ''AAAA'') (js ''audio/webm''),
                                          polish_contents (js ''hello'')]\<rparr>"
    using h c by simp
  then show ?thesis using h c by (simp add: example_app_eq)
qed

section \<open>No empty note in the store\<close>



text \<open>
  The third part of C1 is about the fields as strings, and it cannot be made a
  statement about the trimmed fields. The current note can be a note of the store,
  and \<open>getTranscription\<close> writes any non-empty transcript into it without asking
  whether it is blank: after a take that was saved with a blank polished text, a
  second take on the same note with a blank transcript leaves a stored note whose two
  fields are both blank.
\<close>

lemma blank_note_in_store:
  "notes_arr (run blank_events example_app) = [0]
   \<and> rawTranscription (heap (run blank_events example_app) 0) = js '' ''
   \<and> polishedNote (heap (run blank_events example_app) 0) = js '' ''
   \<and> \<not> has_content (heap (run blank_events example_app) 0)"
proof -
  have "run blank_events example_app
      = step (Transcribed (Resolved (Some (js '' ''))))
          (run [ToggleRecording, DataAvailable clip, RecorderStopped,
                FileRead clip (ReadOk (js ''data:audio/webm;base64,AAAA''))]
             (run [ToggleRecording, UserMedia (Fulfilled ()) working_env] first_take))"
    unfolding blank_events_def first_take_def run_append
    by (simp add: take_events_def)
  then show ?thesis
    unfolding second_captured
    by (simp add: first_take_eq example_app_eq getTranscription_resume_def
          getPolishedNote_start_def blank_trims Let_def has_content_def)
qed

section \<open>Streams\<close>

lemma double_start_eq:
  "double_start = example_app
     \<lparr>recordingStatus := js ''Requesting microphone access...'',
      mediaRecorder := Some \<lparr>recorder_stream = 1, mimeType = js ''audio/webm''\<rparr>,
      isRecording := True, stream := Some 1, audioContext := True, nextStream := 2,
      media_log := [Acquired 0, Acquired 1]\<rparr>"
  by (simp add: double_start_def example_app_eq toggleRecording_def startRecording_start_def
       startRecording_request_def startRecording_media_def startRecording_acquired_def
       startLiveDisplay_def stop_stream_def working_env_def Let_def)

lemma double_start_stopped_eq:
  "double_start_stopped = example_app
     \<lparr>recordingStatus := js ''No audio data captured. Please try again.'',
      mediaRecorder := Some \<lparr>recorder_stream = 1, mimeType = js ''audio/webm''\<rparr>,
      isRecording := False, stream := None, audioContext := False, nextStream := 2,
      media_log := [Acquired 0, Acquired 1, Stopped 1]\<rparr>"
  by (simp add: double_start_stopped_def double_start_eq example_app_eq toggleRecording_def
       stopRecording_def mediaRecorder_onstop_def stopLiveDisplay_def stop_stream_def
       stop_tracks_def Let_def)

lemma lost_frame:
  assumes "lost sid s"
    and "stream s' = stream s" "nextStream s' = nextStream s" "media_log s' = media_log s"
  shows "lost sid s'"
  using assms by (simp add: lost_def)

lemma media_createNewNote [simp]:
  "stream (createNewNote a b s) = stream s"
  "nextStream (createNewNote a b s) = nextStream s"
  "media_log (createNewNote a b s) = media_log s"
  by (simp_all add: createNewNote_def displayNote_def stopLiveDisplay_def Let_def)

lemma media_save [simp]:
  "stream (saveOrUpdateCurrentNote s) = stream s"
  "nextStream (saveOrUpdateCurrentNote s) = nextStream s"
  "media_log (saveOrUpdateCurrentNote s) = media_log s"
  by (simp_all add: saveOrUpdateCurrentNote_def saveNotesToLocalStorage_def Let_def
        split: option.splits)

lemma media_pipeline [simp]:
  "stream (fst (getPolishedNote_start s)) = stream s"
  "nextStream (fst (getPolishedNote_start s)) = nextStream s"
  "media_log (fst (getPolishedNote_start s)) = media_log s"
  "stream (getPolishedNote_resume resp s) = stream s"
  "nextStream (getPolishedNote_resume resp s) = nextStream s"
  "media_log (getPolishedNote_resume resp s) = media_log s"
  "stream (fst (getTranscription_resume resp s)) = stream s"
  "nextStream (fst (getTranscription_resume resp s)) = nextStream s"
  "media_log (fst (getTranscription_resume resp s)) = media_log s"
  "stream (fst (processAudio_resume bl rd s)) = stream s"
  "nextStream (fst (processAudio_resume bl rd s)) = nextStream s"
  "media_log (fst (processAudio_resume bl rd s)) = media_log s"
  "stream (fst (processAudio_start bl s)) = stream s"
  "nextStream (fst (processAudio_start bl s)) = nextStream s"
  "media_log (fst (processAudio_start bl s)) = media_log s"
  by (simp_all add: getPolishedNote_start_def getPolishedNote_resume_def
        getTranscription_resume_def processAudio_resume_def processAudio_start_def
        processAudio_catch_def getTranscription_start_def Let_def
        split: response.splits option.splits read_result.splits list.splits)

lemma media_store_ops [simp]:
  "stream (fst (handleFileUpload_start files a b s)) = stream s"
  "nextStream (fst (handleFileUpload_start files a b s)) = nextStream s"
  "media_log (fst (handleFileUpload_start files a b s)) = media_log s"
  "stream (displayNoteById i s) = stream s"
  "nextStream (displayNoteById i s) = nextStream s"
  "media_log (displayNoteById i s) = media_log s"
  "stream (deleteNote i a b s) = stream s"
  "nextStream (deleteNote i a b s) = nextStream s"
  "media_log (deleteNote i a b s) = media_log s"
  "stream (clearAllNotes c a b s) = stream s"
  "nextStream (clearAllNotes c a b s) = nextStream s"
  "media_log (clearAllNotes c a b s) = media_log s"
  by (simp_all add: handleFileUpload_start_def processAudio_start_def displayNoteById_def
        displayNote_def deleteNote_def clearAllNotes_def saveNotesToLocalStorage_def Let_def
        split: list.splits option.splits)

lemma lost_stop_stream: "lost sid s \<Longrightarrow> lost sid ((stop_stream s)\<lparr>stream := None\<rparr>)"
  by (auto simp: lost_def stop_stream_def stop_tracks_def split: option.splits)

lemma lost_stop_stream': "lost sid s \<Longrightarrow> lost sid (stop_stream s)"
  by (auto simp: lost_def stop_stream_def stop_tracks_def split: option.splits)

lemma lost_catch: "lost sid s \<Longrightarrow> lost sid (startRecording_catch e s)"
  by (auto simp: lost_def startRecording_catch_def stopLiveDisplay_def stop_stream_def
        stop_tracks_def Let_def split: option.splits)

lemma lost_acquired: "lost sid s \<Longrightarrow> lost sid (startRecording_acquired env s)"
  by (auto simp: lost_def startRecording_acquired_def startRecording_catch_def
        stopLiveDisplay_def startLiveDisplay_def stop_stream_def stop_tracks_def Let_def
        split: option.splits outcome.splits)

lemma lost_start: "lost sid s \<Longrightarrow> lost sid (fst (startRecording_start s))"
  by (auto simp: lost_def startRecording_start_def startRecording_request_def stop_stream_def
        stop_tracks_def Let_def split: option.splits)

lemma lost_onstop: "lost sid s \<Longrightarrow> lost sid (fst (mediaRecorder_onstop s))"
  by (auto simp: lost_def mediaRecorder_onstop_def processAudio_start_def stopLiveDisplay_def
        stop_stream_def stop_tracks_def Let_def split: option.splits)

lemma lost_step: "lost sid s \<Longrightarrow> lost sid (step e s)"
proof (cases e)
  case ToggleRecording
  then show "lost sid s \<Longrightarrow> ?thesis"
    by (auto simp: toggleRecording_def lost_start stopRecording_def stopLiveDisplay_def
          intro: lost_frame)
next
  case (ContextClosed r)
  then show "lost sid s \<Longrightarrow> ?thesis"
    by (auto simp: startRecording_closed_def startRecording_request_def lost_catch
          split: outcome.splits intro: lost_frame)
next
  case (UserMedia r env)
  then show "lost sid s \<Longrightarrow> ?thesis"
    by (auto simp: startRecording_media_def lost_acquired split: outcome.splits)
next
  case (FallbackUserMedia r env)
  then show "lost sid s \<Longrightarrow> ?thesis"
    by (auto simp: startRecording_fallback_def lost_acquired lost_catch split: outcome.splits)
next
  case RecorderStopped
  then show "lost sid s \<Longrightarrow> ?thesis" by (simp add: lost_onstop)
qed (auto intro: lost_frame simp: handleFileUpload_finally_def mediaRecorder_ondataavailable_def)

lemma lost_run: "lost sid s \<Longrightarrow> lost sid (run es s)"
  by (induction es arbitrary: s) (simp_all add: lost_step)

lemma lost_live: "lost sid s \<Longrightarrow> sid \<in> set (live_streams s) \<and> releases sid s = 0"
  by (auto simp: lost_def live_streams_def releases_def filter_empty_conv)

text \<open>
  What \<open>startRecording\<close> does to a stream it finds in \<open>this.stream\<close>: its tracks are
  stopped and the buffer is emptied before anything is requested.
\<close>

lemma startRecording_teardown:
  assumes "stream s = Some sid"
  shows "media_log (fst (startRecording_start s)) = media_log s @ [Stopped sid]"
    and "audioChunks (fst (startRecording_start s)) = []"
    and "nextStream (fst (startRecording_start s)) = nextStream s"
  using assms
  by (simp_all add: startRecording_start_def startRecording_request_def stop_stream_def
        stop_tracks_def Let_def)

text \<open>
  A start that acquires a stream either holds it in \<open>this.stream\<close> while recording, or
  has failed and has stopped its tracks.
\<close>

lemma startRecording_acquired_outcome:
  "stream (startRecording_acquired env s) = Some (nextStream s)
     \<and> isRecording (startRecording_acquired env s)
     \<and> media_log (startRecording_acquired env s) = media_log s @ [Acquired (nextStream s)]
   \<or> stream (startRecording_acquired env s) = None
     \<and> \<not> isRecording (startRecording_acquired env s)
     \<and> media_log (startRecording_acquired env s)
         = media_log s @ [Acquired (nextStream s), Stopped (nextStream s)]"
  by (simp add: startRecording_acquired_def startRecording_catch_def startLiveDisplay_def
        stopLiveDisplay_def stop_stream_def stop_tracks_def Let_def split: outcome.splits)

text \<open>
  Stopping releases the stream in \<open>this.stream\<close> once, whatever the pipeline does with
  the captured audio.
\<close>

lemma stop_releases_held_stream:
  assumes "stream s = Some sid"
  shows "media_log (stop_and_process rd resp1 resp2 s) = media_log s @ [Stopped sid]"
    and "stream (stop_and_process rd resp1 resp2 s) = None"
proof -
  have a: "media_log (fst (mediaRecorder_onstop (stopRecording s))) = media_log s @ [Stopped sid]"
    "stream (fst (mediaRecorder_onstop (stopRecording s))) = None"
    using assms
    by (simp_all add: mediaRecorder_onstop_def stopRecording_def stopLiveDisplay_def
          processAudio_start_def stop_stream_def stop_tracks_def Let_def)
  show "media_log (stop_and_process rd resp1 resp2 s) = media_log s @ [Stopped sid]"
    using a(1)
    by (simp add: stop_and_process_def case_prod_beta split: option.splits bool.splits)
  show "stream (stop_and_process rd resp1 resp2 s) = None"
    using a(2)
    by (simp add: stop_and_process_def case_prod_beta split: option.splits bool.splits)
qed

text \<open>
  C6, the code at the failing input. The record button is clicked twice before the
  first \<open>getUserMedia\<close> resolves: the second \<open>startRecording\<close> finds \<open>this.stream\<close>
  still empty and stops nothing, both requests resolve, and the streams 0 and 1 are
  live together, the second one stored over the first.
\<close>

theorem double_start_two_live_streams:
  "live_streams double_start = [0, 1]
   \<and> stream double_start = Some 1
   \<and> media_log double_start = [Acquired 0, Acquired 1]"
  by (simp add: double_start_eq live_streams_def example_app_eq upt_rec)

text \<open>
  C7, the code at the failing input. After the double start the user stops the
  recording: the stream in \<open>this.stream\<close> is released once, and the first stream, whose
  \<open>startRecording\<close> did not fail, is not released, then or after any further events.
\<close>

theorem first_stream_never_released:
  "stream double_start_stopped = None
   \<and> \<not> isRecording double_start_stopped
   \<and> media_log double_start_stopped = [Acquired 0, Acquired 1, Stopped 1]
   \<and> releases 0 (run es double_start_stopped) = 0
   \<and> 0 \<in> set (live_streams (run es double_start_stopped))"
proof -
  have "lost 0 double_start_stopped"
    by (simp add: lost_def double_start_stopped_eq example_app_eq)
  then show ?thesis
    using lost_live[OF lost_run]
    by (simp add: double_start_stopped_eq example_app_eq)
qed

end
